theory Spec2Isabelle
  imports Main "HOL-Library.Multiset"
begin

section \<open>Python values used by the review pipeline\<close>

text \<open>
  Strings are byte strings. \<open>str.lower\<close> is modelled on the ASCII letters, which is
  where the severity names and the keywords of the feedback generator live.
  \<open>startswith\<close> is \<open>str.startswith\<close>, \<open>py_in kw s\<close> is the substring test
  \<open>kw in s\<close>, \<open>str_nat\<close> and \<open>str_int\<close> are \<open>str\<close> on an integer (as an f-string
  prints it).
\<close>

definition ascii_upper :: string where
  "ascii_upper = ''ABCDEFGHIJKLMNOPQRSTUVWXYZ''"

definition ascii_lower :: string where
  "ascii_lower = ''abcdefghijklmnopqrstuvwxyz''"

definition lower_char :: "char \<Rightarrow> char" where
  "lower_char c = (case map_of (zip ascii_upper ascii_lower) c of Some d \<Rightarrow> d | None \<Rightarrow> c)"

definition py_lower :: "string \<Rightarrow> string" where
  "py_lower s = map lower_char s"

fun startswith :: "string \<Rightarrow> string \<Rightarrow> bool" where
  "startswith s [] = True"
| "startswith [] (k # ks) = False"
| "startswith (c # cs) (k # ks) = (c = k \<and> startswith cs ks)"

fun py_in :: "string \<Rightarrow> string \<Rightarrow> bool" where
  "py_in kw [] = (kw = [])"
| "py_in kw (c # cs) = (startswith (c # cs) kw \<or> py_in kw cs)"

definition digit_char :: "nat \<Rightarrow> char" where
  "digit_char d = ''0123456789'' ! d"

fun str_nat :: "nat \<Rightarrow> string" where
  "str_nat n = (if n < 10 then [digit_char n] else str_nat (n div 10) @ [digit_char (n mod 10)])"

definition str_int :: "int \<Rightarrow> string" where
  "str_int i = (if i < 0 then CHR ''-'' # str_nat (nat (- i)) else str_nat (nat i))"

text \<open>
  \<open>round(x, ndigits)\<close> on a Python \<open>int\<close>: the value itself when \<open>ndigits\<close> is not
  negative, otherwise the nearest multiple of \<open>10 ^ (- ndigits)\<close>, ties to even.
\<close>

definition py_round :: "int \<Rightarrow> int \<Rightarrow> int" where
  "py_round x ndigits =
     (if 0 \<le> ndigits then x
      else (let p = 10 ^ nat (- ndigits); q = x div p; r = x mod p
            in if 2 * r < p then q * p
               else if p < 2 * r then (q + 1) * p
               else if even q then q * p else (q + 1) * p))"

text \<open>\<open>list(dict.fromkeys(xs))\<close>: the first occurrence of every element, in order.\<close>

fun dict_fromkeys :: "'a list \<Rightarrow> 'a list \<Rightarrow> 'a list" where
  "dict_fromkeys seen [] = seen"
| "dict_fromkeys seen (x # xs) =
     (if x \<in> set seen then dict_fromkeys seen xs else dict_fromkeys (seen @ [x]) xs)"

datatype py_error = KeyError string

definition dict_get :: "('k \<times> 'v) list \<Rightarrow> 'k \<Rightarrow> 'v \<Rightarrow> 'v" where
  "dict_get d k dflt = (case map_of d k of Some v \<Rightarrow> v | None \<Rightarrow> dflt)"

definition dict_item :: "(string \<times> 'v) list \<Rightarrow> string \<Rightarrow> py_error + 'v" where
  "dict_item d k = (case map_of d k of Some v \<Rightarrow> Inr v | None \<Rightarrow> Inl (KeyError k))"

section \<open>Data model\<close>

text \<open>
  The dictionaries of the source, with an \<open>option\<close> for every key that a dictionary
  may lack. An issue is what an adapter appends to its \<open>issues\<close> list; \<open>i_details\<close>
  is the \<open>details\<close> dictionary of the complexity adapter.
\<close>

record radon_details =
  d_complexity :: int
  d_name :: string
  d_loc :: int
  d_lloc :: int
  d_cc :: int

record issue =
  i_file :: "string option"
  i_line :: "int option"
  i_column :: "int option"
  i_code :: "string option"
  i_message :: "string option"
  i_severity :: "string option"
  i_details :: "radon_details option"

text \<open>
  The value stored for one analyzer in \<open>analysis_results\<close>: the dictionary an adapter
  returns, or the \<open>{"error": str(e)}\<close> that \<open>review_pr\<close> stores when the adapter raised.
\<close>

record analysis_result =
  r_total_issues :: "int option"
  r_errors :: "int option"
  r_warnings :: "int option"
  r_infos :: "int option"
  r_complexity_issues :: "int option"
  r_issues :: "issue list option"
  r_error :: "string option"

record feedback_issue =
  f_analyzer :: string
  f_file :: string
  f_line :: int
  f_message :: string
  f_code :: string

record by_severity =
  s_critical :: int
  s_high :: int
  s_medium :: int
  s_low :: int

record summary =
  total_issues :: int
  by_severity :: by_severity
  analyzers_used :: "string list"

record feedback =
  fb_issues :: "(string \<times> feedback_issue list) list"
  fb_recommendations :: "string list"
  fb_summary :: summary

section \<open>Feedback generator\<close>

definition severity_mapping :: "(string \<times> string) list" where
  "severity_mapping = [(''error'', ''critical''), (''warning'', ''high''), (''info'', ''medium'')]"

definition map_severity :: "string \<Rightarrow> string" where
  "map_severity severity = dict_get severity_mapping (py_lower severity) ''medium''"

definition reduce_issue :: "string \<Rightarrow> issue \<Rightarrow> feedback_issue" where
  "reduce_issue analyzer_name i =
     \<lparr>f_analyzer = analyzer_name,
      f_file = (case i_file i of Some f \<Rightarrow> f | None \<Rightarrow> ''unknown''),
      f_line = (case i_line i of Some l \<Rightarrow> l | None \<Rightarrow> 0),
      f_message = (case i_message i of Some m \<Rightarrow> m | None \<Rightarrow> ''Unknown issue''),
      f_code = (case i_code i of Some c \<Rightarrow> c | None \<Rightarrow> ''unknown'')\<rparr>"

definition issue_bucket :: "issue \<Rightarrow> string" where
  "issue_bucket i = map_severity (case i_severity i of Some s \<Rightarrow> s | None \<Rightarrow> ''info'')"

text \<open>\<open>feedback['issues'][severity].append(x)\<close>; the subscript raises on an unknown key.\<close>

definition bucket_append ::
  "(string \<times> 'a list) list \<Rightarrow> string \<Rightarrow> 'a \<Rightarrow> py_error + (string \<times> 'a list) list" where
  "bucket_append d k x =
     (case map_of d k of
        None \<Rightarrow> Inl (KeyError k)
      | Some _ \<Rightarrow> Inr (map (\<lambda>(k', v). if k' = k then (k', v @ [x]) else (k', v)) d))"

fun add_issues ::
  "string \<Rightarrow> issue list \<Rightarrow> (string \<times> feedback_issue list) list
     \<Rightarrow> py_error + (string \<times> feedback_issue list) list" where
  "add_issues analyzer_name [] d = Inr d"
| "add_issues analyzer_name (i # rest) d =
     (case bucket_append d (issue_bucket i) (reduce_issue analyzer_name i) of
        Inl e \<Rightarrow> Inl e
      | Inr d' \<Rightarrow> add_issues analyzer_name rest d')"

fun add_results ::
  "(string \<times> analysis_result) list \<Rightarrow> (string \<times> feedback_issue list) list
     \<Rightarrow> py_error + (string \<times> feedback_issue list) list" where
  "add_results [] d = Inr d"
| "add_results ((analyzer_name, result) # rest) d =
     (case r_issues result of
        Some (i # others) \<Rightarrow>
          (case add_issues analyzer_name (i # others) d of
             Inl e \<Rightarrow> Inl e
           | Inr d' \<Rightarrow> add_results rest d')
      | _ \<Rightarrow> add_results rest d)"

definition empty_buckets :: "(string \<times> feedback_issue list) list" where
  "empty_buckets = [(''critical'', []), (''high'', []), (''medium'', []), (''low'', [])]"

text \<open>
  The three keyword scans return at the first issue whose lowered message contains a
  keyword; a result without the key \<open>issues\<close> is skipped.
\<close>

fun any_keyword :: "string list \<Rightarrow> string \<Rightarrow> bool" where
  "any_keyword [] message = False"
| "any_keyword (keyword # rest) message = (py_in keyword message \<or> any_keyword rest message)"

fun scan_issues :: "string list \<Rightarrow> issue list \<Rightarrow> bool" where
  "scan_issues keywords [] = False"
| "scan_issues keywords (i # rest) =
     (if any_keyword keywords (py_lower (case i_message i of Some m \<Rightarrow> m | None \<Rightarrow> []))
      then True else scan_issues keywords rest)"

fun scan_results :: "string list \<Rightarrow> (string \<times> analysis_result) list \<Rightarrow> bool" where
  "scan_results keywords [] = False"
| "scan_results keywords ((analyzer_name, result) # rest) =
     (case r_issues result of
        None \<Rightarrow> scan_results keywords rest
      | Some found \<Rightarrow> (if scan_issues keywords found then True else scan_results keywords rest))"

definition has_security_issues :: "(string \<times> analysis_result) list \<Rightarrow> bool" where
  "has_security_issues analysis_results =
     scan_results [''security'', ''vulnerability'', ''injection'', ''sql''] analysis_results"

definition has_performance_issues :: "(string \<times> analysis_result) list \<Rightarrow> bool" where
  "has_performance_issues analysis_results =
     scan_results [''performance'', ''slow'', ''inefficient'', ''memory''] analysis_results"

definition has_documentation_issues :: "(string \<times> analysis_result) list \<Rightarrow> bool" where
  "has_documentation_issues analysis_results =
     scan_results [''docstring'', ''documentation'', ''missing''] analysis_results"

definition rec_style :: string where
  "rec_style = ''Ensure all code follows the project's style guidelines''"

definition rec_review :: string where
  "rec_review = ''Review all identified issues before merging''"

definition rec_critical :: "nat \<Rightarrow> string" where
  "rec_critical n = ''Fix '' @ str_nat n @ '' critical issues before merging''"

definition rec_high :: "nat \<Rightarrow> string" where
  "rec_high n = ''Address '' @ str_nat n @ '' high severity issues''"

definition rec_medium :: "nat \<Rightarrow> string" where
  "rec_medium n = ''Consider addressing '' @ str_nat n @ '' medium severity issues''"

definition rec_security :: string where
  "rec_security = ''Review security implications of code changes''"

definition rec_performance :: string where
  "rec_performance = ''Consider performance optimizations''"

definition rec_refactor :: string where
  "rec_refactor = ''Refactor complex functions to improve readability''"

definition rec_documentation :: string where
  "rec_documentation = ''Update documentation to reflect code changes''"

text \<open>The list \<open>recommendations\<close> as it stands before the duplicates are removed.\<close>

definition appended_recommendations ::
  "(string \<times> analysis_result) list \<Rightarrow> nat \<Rightarrow> nat \<Rightarrow> nat \<Rightarrow> string list" where
  "appended_recommendations analysis_results total_critical total_high total_medium =
     (let recommendations = [rec_style, rec_review];
          recommendations = (if total_critical > 0
             then recommendations @ [rec_critical total_critical] else recommendations);
          recommendations = (if total_high > 0
             then recommendations @ [rec_high total_high] else recommendations);
          recommendations = (if total_medium > 0
             then recommendations @ [rec_medium total_medium] else recommendations);
          recommendations = (if has_security_issues analysis_results
             then recommendations @ [rec_security] else recommendations);
          recommendations = (if has_performance_issues analysis_results
             then recommendations @ [rec_performance] else recommendations);
          complexity_issues = total_high + total_medium;
          recommendations = (if complexity_issues > 0
             then recommendations @ [rec_refactor] else recommendations);
          recommendations = (if has_documentation_issues analysis_results
             then recommendations @ [rec_documentation] else recommendations)
      in recommendations)"

definition generate_recommendations ::
  "'p \<Rightarrow> (string \<times> analysis_result) list \<Rightarrow> (string \<times> feedback_issue list) list
     \<Rightarrow> py_error + string list" where
  "generate_recommendations pr_data analysis_results issues =
     (case dict_item issues ''critical'' of
        Inl e \<Rightarrow> Inl e
      | Inr critical \<Rightarrow>
         (case dict_item issues ''high'' of
            Inl e \<Rightarrow> Inl e
          | Inr high \<Rightarrow>
             (case dict_item issues ''medium'' of
                Inl e \<Rightarrow> Inl e
              | Inr medium \<Rightarrow>
                  Inr (dict_fromkeys []
                         (appended_recommendations analysis_results
                            (length critical) (length high) (length medium))))))"

definition get0 :: "int option \<Rightarrow> int" where
  "get0 v = (case v of Some n \<Rightarrow> n | None \<Rightarrow> 0)"

fun summary_add :: "summary \<Rightarrow> string \<times> analysis_result \<Rightarrow> summary" where
  "summary_add s (analyzer_name, result) =
     (case r_total_issues result of
        None \<Rightarrow> s
      | Some t \<Rightarrow>
          s\<lparr>total_issues := total_issues s + t,
            by_severity := (by_severity s)
              \<lparr>s_critical := s_critical (by_severity s) + get0 (r_errors result),
               s_high := s_high (by_severity s) + get0 (r_warnings result),
               s_medium := s_medium (by_severity s) + get0 (r_infos result)\<rparr>\<rparr>)"

definition generate_summary :: "(string \<times> analysis_result) list \<Rightarrow> summary" where
  "generate_summary analysis_results =
     foldl summary_add
       \<lparr>total_issues = 0,
        by_severity = \<lparr>s_critical = 0, s_high = 0, s_medium = 0, s_low = 0\<rparr>,
        analyzers_used = map fst analysis_results\<rparr>
       analysis_results"

definition generate_feedback ::
  "'p \<Rightarrow> (string \<times> analysis_result) list \<Rightarrow> py_error + feedback" where
  "generate_feedback pr_data analysis_results =
     (case add_results analysis_results empty_buckets of
        Inl e \<Rightarrow> Inl e
      | Inr issues \<Rightarrow>
          (case generate_recommendations pr_data analysis_results issues of
             Inl e \<Rightarrow> Inl e
           | Inr recommendations \<Rightarrow>
               Inr \<lparr>fb_issues = issues,
                    fb_recommendations = recommendations,
                    fb_summary = generate_summary analysis_results\<rparr>))"

section \<open>Quality score\<close>

definition severity_weights :: "(string \<times> int) list" where
  "severity_weights = [(''critical'', 10), (''high'', 7), (''medium'', 4), (''low'', 1)]"

definition add_weighted :: "int \<Rightarrow> string \<times> 'a list \<Rightarrow> int" where
  "add_weighted total_weighted_score item =
     (case item of (severity, issues) \<Rightarrow>
        (let weight = dict_get severity_weights severity 1
         in total_weighted_score + int (length issues) * weight))"

definition calculate_quality_score :: "feedback \<Rightarrow> int" where
  "calculate_quality_score fb =
     (let total_weighted_score = foldl add_weighted 0 (fb_issues fb);
          max_possible_score = 100;
          score = max 0 (min 100 (max_possible_score - total_weighted_score))
      in py_round score 2)"

section \<open>Analyzer adapters\<close>

text \<open>
  The three adapters run the same steps on every changed file and differ in the command
  line, in the parser of the tool's standard output and in their counters. What they
  ask of the operating system is a parameter: \<open>write_temp\<close> is the
  \<open>NamedTemporaryFile\<close> block (it gets the file name, whose extension becomes the
  suffix, and the patch; \<open>Inl\<close> is an exception, which leaves \<open>analyze\<close>, \<open>Inr\<close> the
  name of the temporary file), \<open>subprocess_run\<close> is \<open>subprocess.run\<close> on a command
  line, \<open>os_unlink\<close> the clean-up, whose own failures the source swallows. The state
  \<open>'w\<close> of the outside world is passed along. \<open>py_int\<close> is Python's \<open>int\<close> on a
  string (\<open>Inl\<close> is \<open>str\<close> of its ValueError); \<open>pylint_loads\<close> and \<open>radon_loads\<close>
  are \<open>json.loads\<close> read at the keys and types the adapters use, a key that an item
  lacks being \<open>None\<close>.
\<close>

record changed_file =
  cf_filename :: string
  cf_status :: string
  cf_additions :: int
  cf_deletions :: int
  cf_patch :: "string option"
  cf_raw_url :: string

datatype run_outcome =
    FileNotFoundError
  | RaisedException string
  | CompletedProcess string string

datatype 'a decoded = JSONDecodeError | Decoded 'a

record pylint_item =
  p_message :: "string option"
  p_line :: "int option"
  p_column :: "int option"
  p_category :: "string option"
  p_symbol :: "string option"

record radon_item =
  ri_complexity :: "int option"
  ri_name :: "string option"
  ri_loc :: "int option"
  ri_lloc :: "int option"
  ri_cc :: "int option"
  ri_start_line :: "int option"

record 'w env =
  write_temp :: "'w \<Rightarrow> string \<Rightarrow> string \<Rightarrow> (string + string) \<times> 'w"
  subprocess_run :: "'w \<Rightarrow> string list \<Rightarrow> run_outcome \<times> 'w"
  os_unlink :: "'w \<Rightarrow> string \<Rightarrow> 'w"
  py_int :: "string \<Rightarrow> string + int"
  pylint_loads :: "string \<Rightarrow> pylint_item list decoded"
  radon_loads :: "string \<Rightarrow> radon_item list decoded"

text \<open>
  What one adapter contributes: the name in its messages, its command line for a
  temporary file, and its parser, which gets the file name, the standard output and the
  adapter's issues and counters, and returns them updated, with \<open>str(e)\<close> when an
  exception \<open>e\<close> ended the parsing.
\<close>

record 'c tool =
  t_label :: string
  t_args :: "string \<Rightarrow> string list"
  t_parse :: "string \<Rightarrow> string \<Rightarrow> issue list \<times> 'c \<Rightarrow> string option \<times> issue list \<times> 'c"

definition synthetic_issue :: "string \<Rightarrow> string \<Rightarrow> issue" where
  "synthetic_issue filename message =
     \<lparr>i_file = Some filename, i_line = None, i_column = None, i_code = None,
      i_message = Some message, i_severity = Some ''error'', i_details = None\<rparr>"

definition not_installed :: "'c tool \<Rightarrow> string" where
  "not_installed tool = t_label tool @ '' not installed or not in PATH''"

definition error_running :: "'c tool \<Rightarrow> string \<Rightarrow> string" where
  "error_running tool e = ''Error running '' @ t_label tool @ '': '' @ e"

definition tool_error :: "'c tool \<Rightarrow> string \<Rightarrow> string" where
  "tool_error tool stderr = t_label tool @ '' error: '' @ stderr"

text \<open>The \<open>try\<close> statement of one file, after \<open>subprocess.run\<close> has returned or raised.\<close>

definition handle_outcome ::
  "'c tool \<Rightarrow> string \<Rightarrow> run_outcome \<Rightarrow> issue list \<times> 'c \<Rightarrow> issue list \<times> 'c" where
  "handle_outcome tool filename outcome acc =
     (case outcome of
        FileNotFoundError \<Rightarrow>
          (fst acc @ [synthetic_issue filename (not_installed tool)], snd acc)
      | RaisedException e \<Rightarrow>
          (fst acc @ [synthetic_issue filename (error_running tool e)], snd acc)
      | CompletedProcess stdout stderr \<Rightarrow>
          (case (if stdout \<noteq> [] then t_parse tool filename stdout acc else (None, acc)) of
             (Some e, issues, counters) \<Rightarrow>
               (issues @ [synthetic_issue filename (error_running tool e)], counters)
           | (None, issues, counters) \<Rightarrow>
               (if stderr \<noteq> []
                then (issues @ [synthetic_issue filename (tool_error tool stderr)], counters)
                else (issues, counters))))"

definition analyze_file ::
  "'w env \<Rightarrow> 'c tool \<Rightarrow> changed_file \<Rightarrow> 'w \<Rightarrow> issue list \<times> 'c
     \<Rightarrow> (string + issue list \<times> 'c) \<times> 'w" where
  "analyze_file env tool file w acc =
     (let filename = cf_filename file
      in case write_temp env w filename (case cf_patch file of Some p \<Rightarrow> p | None \<Rightarrow> []) of
           (Inl e, w1) \<Rightarrow> (Inl e, w1)
         | (Inr tmp_filename, w1) \<Rightarrow>
             (case subprocess_run env w1 (t_args tool tmp_filename) of
                (outcome, w2) \<Rightarrow>
                  (Inr (handle_outcome tool filename outcome acc),
                   os_unlink env w2 tmp_filename)))"

definition eligible :: "changed_file \<Rightarrow> bool" where
  "eligible file = (cf_status file \<in> set [''added'', ''modified''])"

fun analyze_files ::
  "'w env \<Rightarrow> 'c tool \<Rightarrow> changed_file list \<Rightarrow> 'w \<Rightarrow> issue list \<times> 'c
     \<Rightarrow> (string + issue list \<times> 'c) \<times> 'w" where
  "analyze_files env tool [] w acc = (Inr acc, w)"
| "analyze_files env tool (file # rest) w acc =
     (if eligible file
      then (case analyze_file env tool file w acc of
              (Inl e, w') \<Rightarrow> (Inl e, w')
            | (Inr acc', w') \<Rightarrow> analyze_files env tool rest w' acc')
      else analyze_files env tool rest w acc)"

subsection \<open>Flake8\<close>

definition py_isspace :: "char \<Rightarrow> bool" where
  "py_isspace c = (c \<in> set [CHR 0x09, CHR 0x0A, CHR 0x0B, CHR 0x0C, CHR 0x0D,
                              CHR 0x1C, CHR 0x1D, CHR 0x1E, CHR 0x1F, CHR 0x20])"

definition py_strip :: "string \<Rightarrow> string" where
  "py_strip s = rev (dropWhile py_isspace (rev (dropWhile py_isspace s)))"

text \<open>\<open>s.split(sep, maxsplit)\<close> for a separator of one character.\<close>

fun py_split :: "char \<Rightarrow> nat \<Rightarrow> string \<Rightarrow> string list" where
  "py_split sep 0 s = [s]"
| "py_split sep (Suc n) s =
     (if sep \<in> set s
      then takeWhile (\<lambda>c. c \<noteq> sep) s # py_split sep n (tl (dropWhile (\<lambda>c. c \<noteq> sep) s))
      else [s])"

definition py_split_all :: "char \<Rightarrow> string \<Rightarrow> string list" where
  "py_split_all sep s = py_split sep (length s) s"

definition flake8_is_error :: "string \<Rightarrow> bool" where
  "flake8_is_error code = (startswith code ''E'' \<or> startswith code ''F'')"

definition flake8_get_severity :: "string \<Rightarrow> string" where
  "flake8_get_severity code =
     (if startswith code ''E'' \<or> startswith code ''F'' then ''error''
      else if startswith code ''W'' \<or> startswith code ''C'' then ''warning''
      else ''info'')"

text \<open>
  The body of the loop over the lines of the standard output: \<open>Inl\<close> is \<open>str(e)\<close> of
  the exception that \<open>int\<close> raised, \<open>Inr\<close> the issues and the two counters after the
  line.
\<close>

definition flake8_line ::
  "(string \<Rightarrow> string + int) \<Rightarrow> string \<Rightarrow> string \<Rightarrow> issue list \<times> int \<times> int
     \<Rightarrow> string + issue list \<times> int \<times> int" where
  "flake8_line to_int filename line acc =
     (case acc of (issues, total_errors, total_warnings) \<Rightarrow>
      if py_strip line \<noteq> [] then
        (let parts = py_split CHR '':'' 3 line
         in if length parts \<ge> 4 then
              (case to_int (parts ! 0) of
                 Inl e \<Rightarrow> Inl e
               | Inr row \<Rightarrow>
                  (case to_int (parts ! 1) of
                     Inl e \<Rightarrow> Inl e
                   | Inr col \<Rightarrow>
                       Inr (issues @ [\<lparr>i_file = Some filename, i_line = Some row,
                                       i_column = Some col, i_code = Some (parts ! 2),
                                       i_message = Some (parts ! 3),
                                       i_severity = Some (flake8_get_severity (parts ! 2)),
                                       i_details = None\<rparr>],
                            if flake8_is_error (parts ! 2) then total_errors + 1
                            else total_errors,
                            if flake8_is_error (parts ! 2) then total_warnings
                            else total_warnings + 1)))
            else Inr acc)
      else Inr acc)"

fun flake8_lines ::
  "(string \<Rightarrow> string + int) \<Rightarrow> string \<Rightarrow> string list \<Rightarrow> issue list \<times> int \<times> int
     \<Rightarrow> string option \<times> issue list \<times> int \<times> int" where
  "flake8_lines to_int filename [] acc = (None, acc)"
| "flake8_lines to_int filename (line # rest) acc =
     (case flake8_line to_int filename line acc of
        Inl e \<Rightarrow> (Some e, acc)
      | Inr acc' \<Rightarrow> flake8_lines to_int filename rest acc')"

definition flake8_tool :: "'w env \<Rightarrow> (int \<times> int) tool" where
  "flake8_tool env =
     \<lparr>t_label = ''Flake8'',
      t_args = (\<lambda>tmp_filename.
         [''flake8'', ''--format'', ''%(row)s:%(col)s:%(code)s:%(text)s'', tmp_filename]),
      t_parse = (\<lambda>filename stdout acc.
         flake8_lines (py_int env) filename (py_split_all CHR 0x0A (py_strip stdout)) acc)\<rparr>"

definition flake8_analyze ::
  "'w env \<Rightarrow> changed_file list \<Rightarrow> 'w \<Rightarrow> (string + analysis_result) \<times> 'w" where
  "flake8_analyze env changed_files w =
     (case analyze_files env (flake8_tool env) changed_files w ([], 0, 0) of
        (Inl e, w') \<Rightarrow> (Inl e, w')
      | (Inr (issues, total_errors, total_warnings), w') \<Rightarrow>
          (Inr \<lparr>r_total_issues = Some (int (length issues)),
                r_errors = Some total_errors,
                r_warnings = Some total_warnings,
                r_infos = None,
                r_complexity_issues = None,
                r_issues = Some issues,
                r_error = None\<rparr>, w'))"

subsection \<open>Pylint\<close>

text \<open>\<open>str\<close> of the KeyError that \<open>item[key]\<close> raises: the key between quotes.\<close>

definition key_error :: "string \<Rightarrow> string" where
  "key_error k = [CHR 0x27] @ k @ [CHR 0x27]"

definition pylint_get_severity :: "string \<Rightarrow> string" where
  "pylint_get_severity category =
     (if category = ''error'' then ''error''
      else if category = ''warning'' then ''warning''
      else if category = ''convention'' then ''info''
      else if category = ''refactor'' then ''info''
      else if category = ''info'' then ''info''
      else ''info'')"

text \<open>
  The body of the loop over the items of the decoded output: \<open>Inl\<close> is \<open>str(e)\<close> of the
  KeyError of the first key that the item lacks, in the order in which the source reads
  the keys.
\<close>

definition pylint_item_step ::
  "string \<Rightarrow> pylint_item \<Rightarrow> issue list \<times> int \<times> int \<times> int
     \<Rightarrow> string + issue list \<times> int \<times> int \<times> int" where
  "pylint_item_step filename item acc =
     (case acc of (issues, total_errors, total_warnings, total_infos) \<Rightarrow>
     (case p_message item of
        None \<Rightarrow> Inl (key_error ''message'')
      | Some message \<Rightarrow>
     (case p_line item of
        None \<Rightarrow> Inl (key_error ''line'')
      | Some line \<Rightarrow>
     (case p_column item of
        None \<Rightarrow> Inl (key_error ''column'')
      | Some column \<Rightarrow>
     (case p_category item of
        None \<Rightarrow> Inl (key_error ''category'')
      | Some category \<Rightarrow>
     (case p_symbol item of
        None \<Rightarrow> Inl (key_error ''symbol'')
      | Some symbol \<Rightarrow>
          Inr (issues @ [\<lparr>i_file = Some filename, i_line = Some line, i_column = Some column,
                          i_code = Some symbol, i_message = Some message,
                          i_severity = Some (pylint_get_severity category),
                          i_details = None\<rparr>],
               if category = ''error'' then total_errors + 1 else total_errors,
               if category = ''error'' then total_warnings
               else if category = ''warning'' then total_warnings + 1 else total_warnings,
               if category = ''error'' then total_infos
               else if category = ''warning'' then total_infos
               else if category = ''info'' then total_infos + 1 else total_infos)))))))"

fun pylint_items ::
  "string \<Rightarrow> pylint_item list \<Rightarrow> issue list \<times> int \<times> int \<times> int
     \<Rightarrow> string option \<times> issue list \<times> int \<times> int \<times> int" where
  "pylint_items filename [] acc = (None, acc)"
| "pylint_items filename (item # rest) acc =
     (case pylint_item_step filename item acc of
        Inl e \<Rightarrow> (Some e, acc)
      | Inr acc' \<Rightarrow> pylint_items filename rest acc')"

definition pylint_tool :: "'w env \<Rightarrow> (int \<times> int \<times> int) tool" where
  "pylint_tool env =
     \<lparr>t_label = ''Pylint'',
      t_args = (\<lambda>tmp_filename. [''pylint'', ''--output-format=json'', tmp_filename]),
      t_parse = (\<lambda>filename stdout acc.
         case pylint_loads env stdout of
           JSONDecodeError \<Rightarrow>
             (None,
              fst acc @ [synthetic_issue filename (''Pylint output parsing error: '' @ stdout)],
              snd acc)
         | Decoded pylint_output \<Rightarrow> pylint_items filename pylint_output acc)\<rparr>"

definition pylint_analyze ::
  "'w env \<Rightarrow> changed_file list \<Rightarrow> 'w \<Rightarrow> (string + analysis_result) \<times> 'w" where
  "pylint_analyze env changed_files w =
     (case analyze_files env (pylint_tool env) changed_files w ([], 0, 0, 0) of
        (Inl e, w') \<Rightarrow> (Inl e, w')
      | (Inr (issues, total_errors, total_warnings, total_infos), w') \<Rightarrow>
          (Inr \<lparr>r_total_issues = Some (int (length issues)),
                r_errors = Some total_errors,
                r_warnings = Some total_warnings,
                r_infos = Some total_infos,
                r_complexity_issues = None,
                r_issues = Some issues,
                r_error = None\<rparr>, w'))"

subsection \<open>Radon\<close>

definition complexity_threshold :: int where
  "complexity_threshold = 5"

definition complexity_issue ::
  "string \<Rightarrow> radon_item \<Rightarrow> int \<Rightarrow> string \<Rightarrow> int \<Rightarrow> int \<Rightarrow> int \<Rightarrow> issue" where
  "complexity_issue filename item complexity name loc lloc cc =
     \<lparr>i_file = Some filename,
      i_line = Some (case ri_start_line item of Some l \<Rightarrow> l | None \<Rightarrow> 0),
      i_column = None,
      i_code = None,
      i_message = Some (''High complexity detected in '' @ name @ '': '' @ str_int complexity
                          @ '' (CC: '' @ str_int cc @ '')''),
      i_severity = Some ''warning'',
      i_details = Some \<lparr>d_complexity = complexity, d_name = name, d_loc = loc,
                          d_lloc = lloc, d_cc = cc\<rparr>\<rparr>"

text \<open>
  The body of the loop over the items of the decoded output. An item without the key
  \<open>complexity\<close> is passed over; with it, the keys \<open>name\<close>, \<open>loc\<close>, \<open>lloc\<close> and \<open>cc\<close>
  are read, in this order, before the score is compared with the threshold.
\<close>

definition radon_item_step ::
  "string \<Rightarrow> radon_item \<Rightarrow> issue list \<times> int \<Rightarrow> string + issue list \<times> int" where
  "radon_item_step filename item acc =
     (case acc of (issues, total_complexity_issues) \<Rightarrow>
     (case ri_complexity item of
        None \<Rightarrow> Inr acc
      | Some complexity \<Rightarrow>
     (case ri_name item of
        None \<Rightarrow> Inl (key_error ''name'')
      | Some name \<Rightarrow>
     (case ri_loc item of
        None \<Rightarrow> Inl (key_error ''loc'')
      | Some loc \<Rightarrow>
     (case ri_lloc item of
        None \<Rightarrow> Inl (key_error ''lloc'')
      | Some lloc \<Rightarrow>
     (case ri_cc item of
        None \<Rightarrow> Inl (key_error ''cc'')
      | Some cc \<Rightarrow>
          (if complexity > complexity_threshold
           then Inr (issues @ [complexity_issue filename item complexity name loc lloc cc],
                     total_complexity_issues + 1)
           else Inr acc)))))))"

fun radon_items ::
  "string \<Rightarrow> radon_item list \<Rightarrow> issue list \<times> int \<Rightarrow> string option \<times> issue list \<times> int" where
  "radon_items filename [] acc = (None, acc)"
| "radon_items filename (item # rest) acc =
     (case radon_item_step filename item acc of
        Inl e \<Rightarrow> (Some e, acc)
      | Inr acc' \<Rightarrow> radon_items filename rest acc')"

definition radon_tool :: "'w env \<Rightarrow> int tool" where
  "radon_tool env =
     \<lparr>t_label = ''Radon'',
      t_args = (\<lambda>tmp_filename. [''radon'', ''cc'', ''--json'', ''--no-assert'', tmp_filename]),
      t_parse = (\<lambda>filename stdout acc.
         case radon_loads env stdout of
           JSONDecodeError \<Rightarrow>
             (None,
              fst acc @ [synthetic_issue filename (''Radon output parsing error: '' @ stdout)],
              snd acc)
         | Decoded radon_output \<Rightarrow> radon_items filename radon_output acc)\<rparr>"

definition radon_analyze ::
  "'w env \<Rightarrow> changed_file list \<Rightarrow> 'w \<Rightarrow> (string + analysis_result) \<times> 'w" where
  "radon_analyze env changed_files w =
     (case analyze_files env (radon_tool env) changed_files w ([], 0) of
        (Inl e, w') \<Rightarrow> (Inl e, w')
      | (Inr (issues, total_complexity_issues), w') \<Rightarrow>
          (Inr \<lparr>r_total_issues = Some (int (length issues)),
                r_errors = None,
                r_warnings = None,
                r_infos = None,
                r_complexity_issues = Some total_complexity_issues,
                r_issues = Some issues,
                r_error = None\<rparr>, w'))"

section \<open>Orchestrator\<close>

text \<open>
  The part of \<open>review_pr\<close> after the pull request has been fetched: every analyzer
  runs inside its own \<open>try\<close>, and an exception that leaves \<open>analyze\<close> is stored as
  \<open>{"error": str(e)}\<close> under the analyzer's name.
\<close>

definition error_result :: "string \<Rightarrow> analysis_result" where
  "error_result e =
     \<lparr>r_total_issues = None, r_errors = None, r_warnings = None, r_infos = None,
      r_complexity_issues = None, r_issues = None, r_error = Some e\<rparr>"

definition dict_set :: "('k \<times> 'v) list \<Rightarrow> 'k \<Rightarrow> 'v \<Rightarrow> ('k \<times> 'v) list" where
  "dict_set d k v =
     (if k \<in> set (map fst d)
      then map (\<lambda>(k', v'). if k' = k then (k', v) else (k', v')) d
      else d @ [(k, v)])"

fun run_analyzers ::
  "(string \<times> (changed_file list \<Rightarrow> 'w \<Rightarrow> (string + analysis_result) \<times> 'w)) list
     \<Rightarrow> changed_file list \<Rightarrow> 'w \<Rightarrow> (string \<times> analysis_result) list
     \<Rightarrow> (string \<times> analysis_result) list \<times> 'w" where
  "run_analyzers [] changed_files w analysis_results = (analysis_results, w)"
| "run_analyzers ((analyzer_name, analyze) # rest) changed_files w analysis_results =
     (case analyze changed_files w of
        (Inr result, w') \<Rightarrow>
          run_analyzers rest changed_files w' (dict_set analysis_results analyzer_name result)
      | (Inl e, w') \<Rightarrow>
          run_analyzers rest changed_files w'
            (dict_set analysis_results analyzer_name (error_result e)))"

definition analyzers ::
  "'w env \<Rightarrow> (string \<times> (changed_file list \<Rightarrow> 'w \<Rightarrow> (string + analysis_result) \<times> 'w)) list"
  where
  "analyzers env =
     [(''flake8'', flake8_analyze env),
      (''pylint'', pylint_analyze env),
      (''radon'', radon_analyze env)]"

record review =
  rv_analysis :: "(string \<times> analysis_result) list"
  rv_feedback :: feedback
  rv_quality_score :: int

definition review_pr ::
  "'w env \<Rightarrow> changed_file list \<Rightarrow> 'w \<Rightarrow> (py_error + review) \<times> 'w" where
  "review_pr env changed_files w =
     (case run_analyzers (analyzers env) changed_files w [] of
        (analysis_results, w') \<Rightarrow>
          (case generate_feedback changed_files analysis_results of
             Inl e \<Rightarrow> (Inl e, w')
           | Inr fb \<Rightarrow>
               (Inr \<lparr>rv_analysis = analysis_results,
                     rv_feedback = fb,
                     rv_quality_score = calculate_quality_score fb\<rparr>, w')))"

section \<open>Vocabulary of the properties\<close>

text \<open>
  The issues a result carries (none when the key \<open>issues\<close> is absent), and the reduced
  records of all issues whose normalized severity is \<open>k\<close>, in the order of the analyzers
  and, within one analyzer, of its issues.
\<close>

definition result_issues :: "analysis_result \<Rightarrow> issue list" where
  "result_issues result = (case r_issues result of Some found \<Rightarrow> found | None \<Rightarrow> [])"

definition bucket_of :: "string \<Rightarrow> (string \<times> analysis_result) list \<Rightarrow> feedback_issue list" where
  "bucket_of k analysis_results =
     concat (map (\<lambda>(analyzer_name, result).
                    map (reduce_issue analyzer_name)
                      (filter (\<lambda>i. issue_bucket i = k) (result_issues result)))
                 analysis_results)"

definition all_issues :: "(string \<times> analysis_result) list \<Rightarrow> issue list" where
  "all_issues analysis_results = concat (map (\<lambda>(analyzer_name, result). result_issues result) analysis_results)"

definition all_reduced :: "(string \<times> analysis_result) list \<Rightarrow> feedback_issue list" where
  "all_reduced analysis_results =
     concat (map (\<lambda>(analyzer_name, result).
                    map (reduce_issue analyzer_name) (result_issues result))
                 analysis_results)"

text \<open>
  The sum of one counter over the results that have the key \<open>total_issues\<close>, the counter
  read with the default 0.
\<close>

definition counter_sum ::
  "(analysis_result \<Rightarrow> int option) \<Rightarrow> (string \<times> analysis_result) list \<Rightarrow> int" where
  "counter_sum counter analysis_results =
     sum_list (map (\<lambda>(analyzer_name, result).
                      case r_total_issues result of None \<Rightarrow> 0 | Some t \<Rightarrow> get0 (counter result))
                   analysis_results)"

text \<open>An issue whose lowered message (the empty string when absent) contains a keyword.\<close>

definition message_matches :: "string list \<Rightarrow> issue \<Rightarrow> bool" where
  "message_matches keywords i =
     any_keyword keywords (py_lower (case i_message i of Some m \<Rightarrow> m | None \<Rightarrow> []))"

text \<open>
  The priority sequence of the recommendations: every string with the condition under
  which it is emitted, for \<open>c\<close>, \<open>h\<close> and \<open>m\<close> issues in the buckets \<open>critical\<close>,
  \<open>high\<close> and \<open>medium\<close>.
\<close>

definition candidate_recommendations ::
  "(string \<times> analysis_result) list \<Rightarrow> nat \<Rightarrow> nat \<Rightarrow> nat \<Rightarrow> (string \<times> bool) list" where
  "candidate_recommendations ars c h m =
     [(rec_style, True), (rec_review, True), (rec_critical c, c > 0), (rec_high h, h > 0),
      (rec_medium m, m > 0), (rec_security, has_security_issues ars),
      (rec_performance, has_performance_issues ars), (rec_refactor, h + m > 0),
      (rec_documentation, has_documentation_issues ars)]"

text \<open>
  A result that lacks the key \<open>total_issues\<close> carries none of the counters \<open>errors\<close>,
  \<open>warnings\<close>, \<open>infos\<close>: so it is for every dictionary an adapter returns, which has
  the key, and for the \<open>{"error": ...}\<close> of the orchestrator, which has no counter.
\<close>

definition counters_need_total :: "analysis_result \<Rightarrow> bool" where
  "counters_need_total result =
     (r_total_issues result = None \<longrightarrow>
        r_errors result = None \<and> r_warnings result = None \<and> r_infos result = None)"

text \<open>
  For the adapters: an issue that the complexity adapter flagged (its issues of
  severity \<open>warning\<close>); a list of issues that extends another by issues of one file;
  an issue that names a file of the sequence whose status is \<open>added\<close> or \<open>modified\<close>.
\<close>

definition flagged :: "issue \<Rightarrow> bool" where
  "flagged i = (i_severity i = Some ''warning'')"

definition tagged :: "string \<Rightarrow> issue list \<Rightarrow> issue list \<Rightarrow> bool" where
  "tagged filename before after =
     (\<exists>new. after = before @ new \<and> list_all (\<lambda>i. i_file i = Some filename) new)"

definition from_eligible :: "changed_file list \<Rightarrow> issue \<Rightarrow> bool" where
  "from_eligible files i =
     list_ex (\<lambda>f. cf_status f \<in> set [''added'', ''modified'']
                    \<and> i_file i = Some (cf_filename f)) files"

text \<open>
  A flagged issue whose \<open>details\<close> hold a score above the threshold; and the state of
  the complexity adapter in which the counter is the number of flagged issues and every
  flagged issue holds such a score.
\<close>

definition above_threshold :: "issue \<Rightarrow> bool" where
  "above_threshold i =
     (case i_details i of Some d \<Rightarrow> complexity_threshold < d_complexity d | None \<Rightarrow> False)"

definition counted_flagged :: "issue list \<times> int \<Rightarrow> bool" where
  "counted_flagged acc =
     (snd acc = int (length (filter flagged (fst acc)))
      \<and> list_all (\<lambda>i. \<not> flagged i \<or> above_threshold i) (fst acc))"

text \<open>
  The severity normalization in the words of the specification, on character codes: a
  native severity that reads \<open>error\<close> goes to \<open>critical\<close>, one that reads
  \<open>warning\<close> to \<open>high\<close>, \<open>info\<close> and every other string to \<open>medium\<close>, the
  upper-case letters \<open>A\<close> to \<open>Z\<close> (codes 65 to 90) counting as their lower-case
  letters. \<open>normalized_bucket k\<close> holds the reduced records of the issues whose
  severity (\<open>info\<close> when absent) is normalized to \<open>k\<close>, in the order of the analyzers
  and of their issues.
\<close>

definition lowered_code :: "nat \<Rightarrow> nat" where
  "lowered_code n = (if 65 \<le> n \<and> n \<le> 90 then n + 32 else n)"

definition normalize :: "string \<Rightarrow> string" where
  "normalize native_severity =
     (let codes = map (\<lambda>c. lowered_code (of_char c)) native_severity
      in if codes = map of_char ''error'' then ''critical''
         else if codes = map of_char ''warning'' then ''high''
         else ''medium'')"

definition normalized_bucket ::
  "string \<Rightarrow> (string \<times> analysis_result) list \<Rightarrow> feedback_issue list" where
  "normalized_bucket k analysis_results =
     concat (map (\<lambda>(analyzer_name, result).
                    map (reduce_issue analyzer_name)
                      (filter (\<lambda>i. normalize (case i_severity i of Some s \<Rightarrow> s
                                                   | None \<Rightarrow> ''info'') = k)
                              (result_issues result)))
                 analysis_results)"


section \<open>Example inputs\<close>

text \<open>
  Four changed files, one of each status. Three worlds whose state counts the temporary
  files written: one where no tool is installed, one where no temporary file can be
  written, one where the tools are found but may not be executed, and one where Radon reports two units, the first with a score at the
  threshold and the second with a score above it.
\<close>

definition example_files :: "changed_file list" where
  "example_files =
     [\<lparr>cf_filename = ''app.py'', cf_status = ''modified'', cf_additions = 2, cf_deletions = 1,
       cf_patch = Some ''x = 1'', cf_raw_url = []\<rparr>,
      \<lparr>cf_filename = ''old.py'', cf_status = ''removed'', cf_additions = 0, cf_deletions = 9,
       cf_patch = Some ''y = 2'', cf_raw_url = []\<rparr>,
      \<lparr>cf_filename = ''lib.py'', cf_status = ''added'', cf_additions = 5, cf_deletions = 0,
       cf_patch = None, cf_raw_url = []\<rparr>,
      \<lparr>cf_filename = ''moved.py'', cf_status = ''renamed'', cf_additions = 0, cf_deletions = 0,
       cf_patch = Some [], cf_raw_url = []\<rparr>]"

definition missing_tools_env :: "nat env" where
  "missing_tools_env =
     \<lparr>write_temp = (\<lambda>w filename patch. (Inr (''/tmp/tmp_'' @ filename), Suc w)),
      subprocess_run = (\<lambda>w argv. (FileNotFoundError, w)),
      os_unlink = (\<lambda>w tmp_filename. w),
      py_int = (\<lambda>s. Inl ''invalid literal for int()''),
      pylint_loads = (\<lambda>s. JSONDecodeError),
      radon_loads = (\<lambda>s. JSONDecodeError)\<rparr>"

definition disk_full_env :: "nat env" where
  "disk_full_env =
     \<lparr>write_temp = (\<lambda>w filename patch. (Inl ''No space left on device'', w)),
      subprocess_run = (\<lambda>w argv. (FileNotFoundError, w)),
      os_unlink = (\<lambda>w tmp_filename. w),
      py_int = (\<lambda>s. Inl ''invalid literal for int()''),
      pylint_loads = (\<lambda>s. JSONDecodeError),
      radon_loads = (\<lambda>s. JSONDecodeError)\<rparr>"


definition radon_units_env :: "nat env" where
  "radon_units_env =
     \<lparr>write_temp = (\<lambda>w filename patch. (Inr (''/tmp/tmp_'' @ filename), Suc w)),
      subprocess_run = (\<lambda>w argv. (CompletedProcess ''[two units]'' [], w)),
      os_unlink = (\<lambda>w tmp_filename. w),
      py_int = (\<lambda>s. Inl ''invalid literal for int()''),
      pylint_loads = (\<lambda>s. JSONDecodeError),
      radon_loads = (\<lambda>s. Decoded
         [\<lparr>ri_complexity = Some 5, ri_name = Some ''f'', ri_loc = Some 10, ri_lloc = Some 8,
           ri_cc = Some 5, ri_start_line = Some 1\<rparr>,
          \<lparr>ri_complexity = Some 6, ri_name = Some ''g'', ri_loc = Some 20, ri_lloc = Some 15,
           ri_cc = Some 6, ri_start_line = Some 12\<rparr>])\<rparr>"

text \<open>
  Two maps of analyzer results: one in which Flake8 and Radon found issues and Pylint
  raised, and one in which the three adapters found nothing.
\<close>

definition example_results :: "(string \<times> analysis_result) list" where
  "example_results =
     [(''flake8'',
       \<lparr>r_total_issues = Some 2, r_errors = Some 1, r_warnings = Some 1, r_infos = None,
        r_complexity_issues = None,
        r_issues = Some
          [\<lparr>i_file = Some ''app.py'', i_line = Some 3, i_column = Some 80,
            i_code = Some ''E501'', i_message = Some '' line too long'',
            i_severity = Some ''error'', i_details = None\<rparr>,
           \<lparr>i_file = Some ''app.py'', i_line = Some 7, i_column = Some 1,
            i_code = Some ''W291'', i_message = Some '' trailing whitespace'',
            i_severity = Some ''warning'', i_details = None\<rparr>],
        r_error = None\<rparr>),
      (''pylint'', error_result ''No space left on device''),
      (''radon'',
       \<lparr>r_total_issues = Some 1, r_errors = None, r_warnings = None, r_infos = None,
        r_complexity_issues = Some 1,
        r_issues = Some
          [\<lparr>i_file = Some ''app.py'', i_line = Some 12, i_column = None, i_code = None,
            i_message = Some ''High complexity detected in g: 6 (CC: 6)'',
            i_severity = Some ''warning'',
            i_details = Some \<lparr>d_complexity = 6, d_name = ''g'', d_loc = 20, d_lloc = 15,
                                d_cc = 6\<rparr>\<rparr>],
        r_error = None\<rparr>)]"

definition clean_results :: "(string \<times> analysis_result) list" where
  "clean_results =
     [(''flake8'',
       \<lparr>r_total_issues = Some 0, r_errors = Some 0, r_warnings = Some 0, r_infos = None,
        r_complexity_issues = None, r_issues = Some [], r_error = None\<rparr>),
      (''pylint'',
       \<lparr>r_total_issues = Some 0, r_errors = Some 0, r_warnings = Some 0, r_infos = Some 0,
        r_complexity_issues = None, r_issues = Some [], r_error = None\<rparr>),
      (''radon'',
       \<lparr>r_total_issues = Some 0, r_errors = None, r_warnings = None, r_infos = None,
        r_complexity_issues = Some 0, r_issues = Some [], r_error = None\<rparr>)]"

text \<open>
  A result of the lint adapter with \<open>n\<close> issues that all carry the message
  \<open>SQL injection risk\<close>.
\<close>

definition sql_issue :: issue where
  "sql_issue =
     \<lparr>i_file = Some ''db.py'', i_line = Some 4, i_column = Some 1, i_code = Some ''W999'',
      i_message = Some ''SQL injection risk'', i_severity = Some ''warning'',
      i_details = None\<rparr>"

definition sql_results :: "nat \<Rightarrow> (string \<times> analysis_result) list" where
  "sql_results n =
     [(''flake8'',
       \<lparr>r_total_issues = Some (int n), r_errors = Some 0, r_warnings = Some (int n),
        r_infos = None, r_complexity_issues = None,
        r_issues = Some (replicate n sql_issue), r_error = None\<rparr>)]"

section \<open>Feedback generator: the buckets\<close>

lemma map_severity_cases:
  "map_severity s =
     (if py_lower s = ''error'' then ''critical''
      else if py_lower s = ''warning'' then ''high'' else ''medium'')"
  by (simp add: map_severity_def dict_get_def severity_mapping_def)

lemma issue_bucket_cases:
  "issue_bucket i = ''critical'' \<or> issue_bucket i = ''high'' \<or> issue_bucket i = ''medium''"
  by (simp add: issue_bucket_def map_severity_cases)

lemma bucket_append_four:
  "bucket_append [(''critical'', c), (''high'', h), (''medium'', m), (''low'', l)] k x =
     (if k = ''critical''
      then Inr [(''critical'', c @ [x]), (''high'', h), (''medium'', m), (''low'', l)]
      else if k = ''high''
      then Inr [(''critical'', c), (''high'', h @ [x]), (''medium'', m), (''low'', l)]
      else if k = ''medium''
      then Inr [(''critical'', c), (''high'', h), (''medium'', m @ [x]), (''low'', l)]
      else if k = ''low''
      then Inr [(''critical'', c), (''high'', h), (''medium'', m), (''low'', l @ [x])]
      else Inl (KeyError k))"
  by (simp add: bucket_append_def)

lemma add_issues_four:
  "add_issues n found [(''critical'', c), (''high'', h), (''medium'', m), (''low'', l)] =
     Inr [(''critical'',
             c @ map (reduce_issue n) (filter (\<lambda>i. issue_bucket i = ''critical'') found)),
          (''high'', h @ map (reduce_issue n) (filter (\<lambda>i. issue_bucket i = ''high'') found)),
          (''medium'',
             m @ map (reduce_issue n) (filter (\<lambda>i. issue_bucket i = ''medium'') found)),
          (''low'', l)]"
proof (induction found arbitrary: c h m)
  case Nil
  then show ?case by simp
next
  case (Cons i found)
  from issue_bucket_cases [of i] show ?case
    by (elim disjE) (simp_all add: bucket_append_four Cons.IH)
qed

lemma add_results_four:
  "add_results ars [(''critical'', c), (''high'', h), (''medium'', m), (''low'', l)] =
     Inr [(''critical'', c @ bucket_of ''critical'' ars),
          (''high'', h @ bucket_of ''high'' ars),
          (''medium'', m @ bucket_of ''medium'' ars),
          (''low'', l)]"
proof (induction ars arbitrary: c h m)
  case Nil
  then show ?case by (simp add: bucket_of_def)
next
  case (Cons a ars)
  obtain n r where a: "a = (n, r)" by (cases a)
  show ?case
  proof (cases "r_issues r")
    case None
    then show ?thesis
      by (simp add: a Cons.IH bucket_of_def result_issues_def)
  next
    case (Some found)
    then show ?thesis
      by (cases found) (simp_all add: a Cons.IH add_issues_four bucket_of_def result_issues_def)
  qed
qed

section \<open>Feedback generator: summary and recommendations\<close>

lemma foldl_summary_add:
  "foldl summary_add s ars =
     \<lparr>total_issues = total_issues s + counter_sum r_total_issues ars,
      by_severity =
        \<lparr>s_critical = s_critical (by_severity s) + counter_sum r_errors ars,
         s_high = s_high (by_severity s) + counter_sum r_warnings ars,
         s_medium = s_medium (by_severity s) + counter_sum r_infos ars,
         s_low = s_low (by_severity s)\<rparr>,
      analyzers_used = analyzers_used s\<rparr>"
proof (induction ars arbitrary: s)
  case Nil
  then show ?case by (simp add: counter_sum_def)
next
  case (Cons a ars)
  obtain n r where a: "a = (n, r)" by (cases a)
  show ?case
    by (cases "r_total_issues r") (simp_all add: a Cons.IH counter_sum_def get0_def)
qed

lemma generate_summary_eq:
  "generate_summary ars =
     \<lparr>total_issues = counter_sum r_total_issues ars,
      by_severity =
        \<lparr>s_critical = counter_sum r_errors ars,
         s_high = counter_sum r_warnings ars,
         s_medium = counter_sum r_infos ars,
         s_low = 0\<rparr>,
      analyzers_used = map fst ars\<rparr>"
  by (simp add: generate_summary_def foldl_summary_add)

lemma scan_issues_eq: "scan_issues keywords found = list_ex (message_matches keywords) found"
  by (induction found) (simp_all add: message_matches_def)

lemma scan_results_eq:
  "scan_results keywords ars = list_ex (message_matches keywords) (all_issues ars)"
proof (induction ars)
  case Nil
  then show ?case by (simp add: all_issues_def)
next
  case (Cons a ars)
  obtain n r where a: "a = (n, r)" by (cases a)
  show ?case
    using Cons.IH
    by (cases "r_issues r")
       (simp_all add: a all_issues_def result_issues_def scan_issues_eq)
qed

lemma appended_recommendations_eq:
  "appended_recommendations ars c h m = map fst (filter snd (candidate_recommendations ars c h m))"
  by (simp add: appended_recommendations_def candidate_recommendations_def Let_def)

lemma candidates_distinct: "distinct (map fst (candidate_recommendations ars c h m))"
  by (simp add: candidate_recommendations_def rec_style_def rec_review_def rec_critical_def
      rec_high_def rec_medium_def rec_security_def rec_performance_def rec_refactor_def
      rec_documentation_def)

lemma appended_recommendations_distinct: "distinct (appended_recommendations ars c h m)"
  unfolding appended_recommendations_eq
  using candidates_distinct [of ars c h m] by (rule distinct_map_filter)

lemma dict_fromkeys_distinct:
  "distinct (seen @ xs) \<Longrightarrow> dict_fromkeys seen xs = seen @ xs"
  by (induction xs arbitrary: seen) auto

lemma dict_fromkeys_no_duplicates:
  "distinct seen \<Longrightarrow> distinct (dict_fromkeys seen xs)"
  by (induction xs arbitrary: seen) auto

lemma generate_feedback_eq:
  "generate_feedback pr_data ars =
     Inr \<lparr>fb_issues = [(''critical'', bucket_of ''critical'' ars),
                       (''high'', bucket_of ''high'' ars),
                       (''medium'', bucket_of ''medium'' ars),
                       (''low'', [])],
          fb_recommendations =
            appended_recommendations ars (length (bucket_of ''critical'' ars))
              (length (bucket_of ''high'' ars)) (length (bucket_of ''medium'' ars)),
          fb_summary = generate_summary ars\<rparr>"
  using add_results_four [of ars "[]" "[]" "[]" "[]"]
  by (simp add: generate_feedback_def empty_buckets_def generate_recommendations_def
      dict_item_def dict_fromkeys_distinct appended_recommendations_distinct)

lemma buckets_partition_issues:
  "mset (filter (\<lambda>i. issue_bucket i = ''critical'') found)
   + mset (filter (\<lambda>i. issue_bucket i = ''high'') found)
   + mset (filter (\<lambda>i. issue_bucket i = ''medium'') found) = mset found"
proof (induction found)
  case Nil
  then show ?case by simp
next
  case (Cons i found)
  from issue_bucket_cases [of i] Cons.IH show ?case
    by (elim disjE) (simp_all add: add.assoc [symmetric])
qed

lemma bucket_of_Cons:
  "bucket_of k ((n, r) # ars) =
     map (reduce_issue n) (filter (\<lambda>i. issue_bucket i = k) (result_issues r)) @ bucket_of k ars"
  by (simp add: bucket_of_def)

lemma all_reduced_Cons:
  "all_reduced ((n, r) # ars) = map (reduce_issue n) (result_issues r) @ all_reduced ars"
  by (simp add: all_reduced_def)

lemma buckets_partition:
  "mset (bucket_of ''critical'' ars) + mset (bucket_of ''high'' ars)
   + mset (bucket_of ''medium'' ars) = mset (all_reduced ars)"
proof (induction ars)
  case Nil
  then show ?case by (simp add: bucket_of_def all_reduced_def)
next
  case (Cons a ars)
  obtain n r where a: "a = (n, r)" by (cases a)
  define sel where "sel k = mset (filter (\<lambda>i. issue_bucket i = k) (result_issues r))" for k
  define old where "old k = mset (bucket_of k ars)" for k
  have head: "image_mset (reduce_issue n) (sel ''critical'' + sel ''high'' + sel ''medium'')
      = image_mset (reduce_issue n) (mset (result_issues r))"
    unfolding sel_def by (simp only: buckets_partition_issues)
  have split: "mset (bucket_of k (a # ars)) = image_mset (reduce_issue n) (sel k) + old k" for k
    unfolding sel_def old_def a bucket_of_Cons by simp
  have "mset (bucket_of ''critical'' (a # ars)) + mset (bucket_of ''high'' (a # ars))
      + mset (bucket_of ''medium'' (a # ars))
    = image_mset (reduce_issue n) (sel ''critical'' + sel ''high'' + sel ''medium'')
      + (old ''critical'' + old ''high'' + old ''medium'')"
    unfolding split by (simp add: ac_simps)
  also have "\<dots> = image_mset (reduce_issue n) (mset (result_issues r)) + mset (all_reduced ars)"
    unfolding head old_def using Cons.IH by simp
  also have "\<dots> = mset (all_reduced (a # ars))"
    unfolding a all_reduced_Cons by simp
  finally show ?case .
qed

lemma count_list_distinct:
  "distinct xs \<Longrightarrow> count_list xs x = (if x \<in> set xs then 1 else 0)"
  by (induction xs) auto

lemma security_in_recommendations:
  "rec_security \<in> set (appended_recommendations ars c h m) = has_security_issues ars"
  by (simp add: appended_recommendations_eq candidate_recommendations_def rec_style_def
      rec_review_def rec_critical_def rec_high_def rec_medium_def rec_security_def
      rec_performance_def rec_refactor_def rec_documentation_def)

lemma counter_sum_all:
  "list_all (\<lambda>(n, r). r_total_issues r = None \<longrightarrow> counter r = None) ars \<Longrightarrow>
   counter_sum counter ars = sum_list (map (\<lambda>(n, r). get0 (counter r)) ars)"
  by (induction ars) (auto simp: counter_sum_def get0_def split: option.splits)

lemma counter_sum_total:
  "counter_sum r_total_issues ars = sum_list (map (\<lambda>(n, r). get0 (r_total_issues r)) ars)"
  by (rule counter_sum_all) (simp add: list_all_iff split: prod.splits)

text \<open>
  C2. For every map of analyzer results, the summary of the synthesized report has as
  \<open>total_issues\<close> the sum of the \<open>total_issues\<close> the results report, as
  \<open>by_severity\<close> \<open>critical\<close>, \<open>high\<close> and \<open>medium\<close> the sums of the results' own
  counters \<open>errors\<close>, \<open>warnings\<close> and \<open>infos\<close> (the bucketed issue lists play no part),
  as \<open>low\<close> 0, and as \<open>analyzers_used\<close> the name of every entry of the map, an entry
  that only records an error included. A counter that a result lacks counts as 0. The
  results are those an adapter returns or the orchestrator records: a result without
  \<open>total_issues\<close> has no counter.
\<close>

theorem summary_sums_adapter_counters:
  assumes "list_all (\<lambda>(analyzer_name, result). counters_need_total result) ars"
  shows "\<exists>fb. generate_feedback pr_data ars = Inr fb
    \<and> total_issues (fb_summary fb)
        = sum_list (map (\<lambda>(analyzer_name, result). get0 (r_total_issues result)) ars)
    \<and> s_critical (by_severity (fb_summary fb))
        = sum_list (map (\<lambda>(analyzer_name, result). get0 (r_errors result)) ars)
    \<and> s_high (by_severity (fb_summary fb))
        = sum_list (map (\<lambda>(analyzer_name, result). get0 (r_warnings result)) ars)
    \<and> s_medium (by_severity (fb_summary fb))
        = sum_list (map (\<lambda>(analyzer_name, result). get0 (r_infos result)) ars)
    \<and> s_low (by_severity (fb_summary fb)) = 0
    \<and> analyzers_used (fb_summary fb) = map fst ars"
proof -
  have e: "counter_sum r_errors ars = sum_list (map (\<lambda>(n, r). get0 (r_errors r)) ars)"
    by (rule counter_sum_all) (use assms in \<open>auto simp: list_all_iff counters_need_total_def\<close>)
  have w: "counter_sum r_warnings ars = sum_list (map (\<lambda>(n, r). get0 (r_warnings r)) ars)"
    by (rule counter_sum_all) (use assms in \<open>auto simp: list_all_iff counters_need_total_def\<close>)
  have i: "counter_sum r_infos ars = sum_list (map (\<lambda>(n, r). get0 (r_infos r)) ars)"
    by (rule counter_sum_all) (use assms in \<open>auto simp: list_all_iff counters_need_total_def\<close>)
  show ?thesis
    by (simp add: generate_feedback_eq generate_summary_eq counter_sum_total e w i)
qed

theorem summary_sums_adapter_counters_witness:
  "list_all (\<lambda>(analyzer_name, result). counters_need_total result) example_results
   \<and> (\<exists>fb. generate_feedback example_files example_results = Inr fb
         \<and> total_issues (fb_summary fb) = 3
         \<and> s_critical (by_severity (fb_summary fb)) = 1
         \<and> s_high (by_severity (fb_summary fb)) = 1
         \<and> s_medium (by_severity (fb_summary fb)) = 0
         \<and> s_low (by_severity (fb_summary fb)) = 0
         \<and> analyzers_used (fb_summary fb) = [''flake8'', ''pylint'', ''radon''])"
proof -
  have wf: "list_all (\<lambda>(analyzer_name, result). counters_need_total result) example_results"
    by (simp add: example_results_def counters_need_total_def error_result_def)
  from summary_sums_adapter_counters [OF wf, of example_files] wf show ?thesis
    by (simp add: example_results_def error_result_def get0_def)
qed

lemma upper_letter_code:
  assumes "65 \<le> (n::nat)" "n \<le> 90"
  shows "n \<in> set (map of_char ascii_upper)"
  using assms by (simp add: ascii_upper_def; arith)

lemma upper_letter:
  assumes "65 \<le> (of_char c :: nat)" "(of_char c :: nat) \<le> 90"
  shows "c \<in> set ascii_upper"
proof -
  from upper_letter_code [OF assms] obtain d where
    "d \<in> set ascii_upper" "(of_char c :: nat) = of_char d"
    by auto
  then show ?thesis by simp
qed

lemma lower_char_code: "(of_char (lower_char c) :: nat) = lowered_code (of_char c)"
proof (cases "c \<in> set ascii_upper")
  case True
  then show ?thesis
    unfolding ascii_upper_def
    by (auto simp: lower_char_def lowered_code_def ascii_upper_def ascii_lower_def)
next
  case False
  then have "map_of (zip ascii_upper ascii_lower) c = None"
    by (simp add: map_of_eq_None_iff ascii_upper_def ascii_lower_def)
  moreover from False upper_letter [of c]
  have "\<not> (65 \<le> (of_char c :: nat) \<and> (of_char c :: nat) \<le> 90)" by blast
  ultimately show ?thesis
    by (simp add: lower_char_def lowered_code_def)
qed

lemma py_lower_codes:
  "map of_char (py_lower s) = map (\<lambda>c. lowered_code (of_char c)) s"
  by (simp add: py_lower_def lower_char_code)

lemma codes_eq_iff: "(map of_char s = (map of_char t :: nat list)) = (s = t)"
  by (simp add: inj_map_eq_map inj_on_def)

lemma map_severity_normalize: "map_severity s = normalize s"
  unfolding normalize_def Let_def map_severity_cases
  by (simp only: py_lower_codes [symmetric] codes_eq_iff)

lemma issue_bucket_normalize:
  "issue_bucket i = normalize (case i_severity i of Some s \<Rightarrow> s | None \<Rightarrow> ''info'')"
  by (simp add: issue_bucket_def map_severity_normalize)

lemma bucket_of_normalized: "bucket_of k ars = normalized_bucket k ars"
  by (simp add: bucket_of_def normalized_bucket_def issue_bucket_normalize)

lemma normalize_values:
  "normalize ''error'' = ''critical''" "normalize ''warning'' = ''high''"
  "normalize ''info'' = ''medium''" "normalize ''ERROR'' = ''critical''"
  "normalize ''Warning'' = ''high''" "normalize ''convention'' = ''medium''"
  by (simp_all add: normalize_def lowered_code_def)

lemma normalize_cases:
  "normalize s = ''critical'' \<or> normalize s = ''high'' \<or> normalize s = ''medium''"
  by (simp add: normalize_def Let_def)

lemma single_issue_buckets:
  "generate_feedback pr_data [(analyzer_name, result\<lparr>r_issues := Some [i]\<rparr>)] =
     Inr fb \<Longrightarrow>
   fb_issues fb =
     map (\<lambda>k. (k, if normalize (case i_severity i of Some s \<Rightarrow> s | None \<Rightarrow> ''info'') = k
                    then [reduce_issue analyzer_name i] else []))
         [''critical'', ''high'', ''medium'', ''low'']"
  using normalize_cases [of "case i_severity i of Some s \<Rightarrow> s | None \<Rightarrow> ''info''"]
  by (auto simp: generate_feedback_eq bucket_of_normalized normalized_bucket_def
      result_issues_def)

text \<open>
  C5. The severity normalization of the code is the one of the specification: \<open>error\<close>
  goes to \<open>critical\<close>, \<open>warning\<close> to \<open>high\<close>, \<open>info\<close> and every other string to
  \<open>medium\<close>, whatever the case of the letters; an issue goes to the bucket of its
  severity so normalized, an issue without severity to \<open>medium\<close>. The synthesized
  report has the four buckets, each holding the reduced records of the issues normalized
  to it, in order, so that a single issue lands in exactly the bucket of its normalized
  severity and in no other; the buckets together hold every contributed issue exactly
  once, and the bucket \<open>low\<close> is empty. For the example results, the \<open>error\<close> issue
  of the lint adapter is in \<open>critical\<close> and the two \<open>warning\<close> issues are in
  \<open>high\<close>.
\<close>

theorem severity_normalization:
  "map_severity s = normalize s
   \<and> map_severity s =
       (if py_lower s = ''error'' then ''critical''
        else if py_lower s = ''warning'' then ''high'' else ''medium'')
   \<and> map_severity ''error'' = ''critical''
   \<and> map_severity ''warning'' = ''high''
   \<and> map_severity ''info'' = ''medium''
   \<and> map_severity ''ERROR'' = ''critical''
   \<and> map_severity ''Warning'' = ''high''
   \<and> map_severity ''convention'' = ''medium''
   \<and> issue_bucket i = normalize (case i_severity i of Some s \<Rightarrow> s | None \<Rightarrow> ''info'')
   \<and> issue_bucket (i\<lparr>i_severity := None\<rparr>) = ''medium''
   \<and> issue_bucket (i\<lparr>i_severity := Some ''error''\<rparr>) = ''critical''
   \<and> issue_bucket (i\<lparr>i_severity := Some ''warning''\<rparr>) = ''high''
   \<and> issue_bucket (i\<lparr>i_severity := Some ''info''\<rparr>) = ''medium''
   \<and> (\<exists>fb. generate_feedback pr_data ars = Inr fb
        \<and> fb_issues fb = [(''critical'', normalized_bucket ''critical'' ars),
                          (''high'', normalized_bucket ''high'' ars),
                          (''medium'', normalized_bucket ''medium'' ars),
                          (''low'', [])]
        \<and> mset (concat (map snd (fb_issues fb))) = mset (all_reduced ars))
   \<and> (\<exists>fb. generate_feedback pr_data [(analyzer_name, result\<lparr>r_issues := Some [i]\<rparr>)]
               = Inr fb
        \<and> fb_issues fb =
            map (\<lambda>k. (k, if normalize (case i_severity i of Some s \<Rightarrow> s | None \<Rightarrow> ''info'') = k
                           then [reduce_issue analyzer_name i] else []))
                [''critical'', ''high'', ''medium'', ''low''])
   \<and> (\<exists>fb. generate_feedback pr_data example_results = Inr fb
        \<and> fb_issues fb =
            [(''critical'',
              [\<lparr>f_analyzer = ''flake8'', f_file = ''app.py'', f_line = 3,
                f_message = '' line too long'', f_code = ''E501''\<rparr>]),
             (''high'',
              [\<lparr>f_analyzer = ''flake8'', f_file = ''app.py'', f_line = 7,
                f_message = '' trailing whitespace'', f_code = ''W291''\<rparr>,
               \<lparr>f_analyzer = ''radon'', f_file = ''app.py'', f_line = 12,
                f_message = ''High complexity detected in g: 6 (CC: 6)'',
                f_code = ''unknown''\<rparr>]),
             (''medium'', []),
             (''low'', [])])"
proof -
  have mapped: "map_severity ''error'' = ''critical''" "map_severity ''warning'' = ''high''"
    "map_severity ''info'' = ''medium''" "map_severity ''ERROR'' = ''critical''"
    "map_severity ''Warning'' = ''high''" "map_severity ''convention'' = ''medium''"
    by (simp_all add: map_severity_normalize normalize_values)
  have placed: "issue_bucket (i\<lparr>i_severity := None\<rparr>) = ''medium''"
    "issue_bucket (i\<lparr>i_severity := Some ''error''\<rparr>) = ''critical''"
    "issue_bucket (i\<lparr>i_severity := Some ''warning''\<rparr>) = ''high''"
    "issue_bucket (i\<lparr>i_severity := Some ''info''\<rparr>) = ''medium''"
    by (simp_all add: issue_bucket_normalize normalize_values)
  have every: "\<exists>fb. generate_feedback pr_data ars = Inr fb
        \<and> fb_issues fb = [(''critical'', normalized_bucket ''critical'' ars),
                          (''high'', normalized_bucket ''high'' ars),
                          (''medium'', normalized_bucket ''medium'' ars),
                          (''low'', [])]
        \<and> mset (concat (map snd (fb_issues fb))) = mset (all_reduced ars)"
    using buckets_partition [of ars]
    by (simp add: generate_feedback_eq add.assoc flip: bucket_of_normalized)
  have one: "\<exists>fb. generate_feedback pr_data
        [(analyzer_name, result\<lparr>r_issues := Some [i]\<rparr>)] = Inr fb
        \<and> fb_issues fb =
            map (\<lambda>k. (k, if normalize (case i_severity i of Some s \<Rightarrow> s | None \<Rightarrow> ''info'') = k
                           then [reduce_issue analyzer_name i] else []))
                [''critical'', ''high'', ''medium'', ''low'']"
    using single_issue_buckets [where pr_data = pr_data and analyzer_name = analyzer_name
        and result = result and i = i]
    by (simp add: generate_feedback_eq)
  have shown: "\<exists>fb. generate_feedback pr_data example_results = Inr fb
        \<and> fb_issues fb =
            [(''critical'',
              [\<lparr>f_analyzer = ''flake8'', f_file = ''app.py'', f_line = 3,
                f_message = '' line too long'', f_code = ''E501''\<rparr>]),
             (''high'',
              [\<lparr>f_analyzer = ''flake8'', f_file = ''app.py'', f_line = 7,
                f_message = '' trailing whitespace'', f_code = ''W291''\<rparr>,
               \<lparr>f_analyzer = ''radon'', f_file = ''app.py'', f_line = 12,
                f_message = ''High complexity detected in g: 6 (CC: 6)'',
                f_code = ''unknown''\<rparr>]),
             (''medium'', []),
             (''low'', [])]"
    by (simp add: generate_feedback_eq bucket_of_normalized normalized_bucket_def
        example_results_def result_issues_def error_result_def normalize_values
        reduce_issue_def)
  from mapped placed every one shown
    map_severity_normalize [of s] map_severity_cases [of s] issue_bucket_normalize [of i]
  show ?thesis
    by (intro conjI) assumption+
qed

lemma sql_issue_matches:
  "message_matches [''security'', ''vulnerability'', ''injection'', ''sql''] sql_issue"
  "\<not> message_matches [''performance'', ''slow'', ''inefficient'', ''memory''] sql_issue"
  "\<not> message_matches [''docstring'', ''documentation'', ''missing''] sql_issue"
  "issue_bucket sql_issue = ''high''"
  by (simp_all add: message_matches_def sql_issue_def py_lower_def lower_char_def
      ascii_upper_def ascii_lower_def issue_bucket_def map_severity_cases)

lemma list_ex_replicate: "list_ex P (replicate n x) = (0 < n \<and> P x)"
  by (induction n) auto

lemma sql_results_recommendations:
  "\<exists>fb. generate_feedback pr_data (sql_results (Suc n)) = Inr fb
     \<and> fb_recommendations fb =
         [rec_style, rec_review, rec_high (Suc n), rec_security, rec_refactor]
     \<and> count_list (fb_recommendations fb) rec_security = 1"
proof -
  have issues: "all_issues (sql_results (Suc n)) = replicate (Suc n) sql_issue"
    by (simp add: sql_results_def all_issues_def result_issues_def)
  have high: "bucket_of ''high'' (sql_results (Suc n))
      = replicate (Suc n) (reduce_issue ''flake8'' sql_issue)"
    by (simp add: sql_results_def bucket_of_def result_issues_def sql_issue_matches)
  have other: "bucket_of ''critical'' (sql_results (Suc n)) = []"
    "bucket_of ''medium'' (sql_results (Suc n)) = []"
    by (simp_all add: sql_results_def bucket_of_def result_issues_def sql_issue_matches)
  have recs: "appended_recommendations (sql_results (Suc n)) 0 (Suc n) 0
      = [rec_style, rec_review, rec_high (Suc n), rec_security, rec_refactor]"
    by (simp add: appended_recommendations_def has_security_issues_def
        has_performance_issues_def has_documentation_issues_def scan_results_eq issues
        sql_issue_matches list_ex_replicate Let_def del: replicate_Suc)
  have "rec_security \<noteq> rec_style" "rec_security \<noteq> rec_review"
    "rec_security \<noteq> rec_high (Suc n)" "rec_security \<noteq> rec_refactor"
    by (simp_all add: rec_security_def rec_style_def rec_review_def rec_high_def
        rec_refactor_def)
  then show ?thesis
    by (simp add: generate_feedback_eq high other recs)
qed

text \<open>
  C6. The recommendations of the synthesized report hold no string twice, and they are
  the strings of the priority sequence whose condition holds, in that order: the two
  fixed advisories, the counts of critical, high and medium issues, then the security,
  performance, refactoring and documentation recommendations. The security
  recommendation occurs once when the lowered message of some issue contains one of the
  security keywords, however many issues do, and not at all otherwise; the message
  \<open>SQL injection risk\<close> is such a message, and a lint result with any positive number
  of issues of this message gives the security recommendation once.
\<close>

theorem recommendations_deduplicated:
  "\<exists>fb. generate_feedback pr_data ars = Inr fb
     \<and> distinct (fb_recommendations fb)
     \<and> fb_recommendations fb =
         map fst (filter snd
           (candidate_recommendations ars (length (bucket_of ''critical'' ars))
              (length (bucket_of ''high'' ars)) (length (bucket_of ''medium'' ars))))
     \<and> count_list (fb_recommendations fb) rec_security
         = (if list_ex (message_matches [''security'', ''vulnerability'', ''injection'', ''sql''])
                 (all_issues ars) then 1 else 0)
     \<and> message_matches [''security'', ''vulnerability'', ''injection'', ''sql'']
         (i\<lparr>i_message := Some ''SQL injection risk''\<rparr>)
     \<and> (\<exists>fb'. generate_feedback pr_data (sql_results (Suc n)) = Inr fb'
          \<and> fb_recommendations fb' =
              [rec_style, rec_review, rec_high (Suc n), rec_security, rec_refactor]
          \<and> count_list (fb_recommendations fb') rec_security = 1)"
proof -
  have "message_matches [''security'', ''vulnerability'', ''injection'', ''sql'']
         (i\<lparr>i_message := Some ''SQL injection risk''\<rparr>)"
    by (simp add: message_matches_def py_lower_def lower_char_def ascii_upper_def
        ascii_lower_def)
  then have "\<exists>fb. generate_feedback pr_data ars = Inr fb
     \<and> distinct (fb_recommendations fb)
     \<and> fb_recommendations fb =
         map fst (filter snd
           (candidate_recommendations ars (length (bucket_of ''critical'' ars))
              (length (bucket_of ''high'' ars)) (length (bucket_of ''medium'' ars))))
     \<and> count_list (fb_recommendations fb) rec_security
         = (if list_ex (message_matches [''security'', ''vulnerability'', ''injection'', ''sql''])
                 (all_issues ars) then 1 else 0)
     \<and> message_matches [''security'', ''vulnerability'', ''injection'', ''sql'']
         (i\<lparr>i_message := Some ''SQL injection risk''\<rparr>)"
    by (simp add: generate_feedback_eq appended_recommendations_distinct
        count_list_distinct security_in_recommendations has_security_issues_def
        scan_results_eq flip: appended_recommendations_eq)
  with sql_results_recommendations [of pr_data n] show ?thesis
    by blast
qed

section \<open>Quality score: the weighted deduction\<close>

lemma weight_positive: "0 < dict_get severity_weights severity (1::int)"
  by (simp add: dict_get_def severity_weights_def)

lemma foldl_add_weighted:
  "foldl add_weighted a bs =
     a + sum_list (map (\<lambda>item. int (length (snd item)) * dict_get severity_weights (fst item) 1) bs)"
  by (induction bs arbitrary: a) (auto simp: add_weighted_def Let_def split: prod.splits)

lemma py_round_digits: "0 \<le> ndigits \<Longrightarrow> py_round x ndigits = x"
  by (simp add: py_round_def)

lemma calculate_quality_score_eq:
  "calculate_quality_score fb =
     max 0 (min 100 (100 - sum_list (map (\<lambda>item. int (length (snd item))
                                             * dict_get severity_weights (fst item) 1)
                                        (fb_issues fb))))"
  by (simp add: calculate_quality_score_def Let_def foldl_add_weighted py_round_digits)

lemma sum_list_map_update:
  fixes f :: "'a \<Rightarrow> int"
  shows "i < length xs \<Longrightarrow>
    sum_list (map f (xs[i := y])) = sum_list (map f xs) - f (xs ! i) + f y"
  by (induction xs arbitrary: i) (auto split: nat.splits)

text \<open>
  C1. The score of a report with the four buckets \<open>critical\<close>, \<open>high\<close>, \<open>medium\<close>,
  \<open>low\<close> is \<open>100 - (10 * critical + 7 * high + 4 * medium + 1 * low)\<close>, counted on the
  lengths of the buckets, clamped to the range from 0 to 100 and rounded to two digits.
  The score is a Python \<open>int\<close>, which \<open>round(score, 2)\<close> returns as it is. A report
  whose buckets are all empty scores 100, and one with two \<open>high\<close> issues and one
  \<open>medium\<close> issue scores 82. Every report the feedback generator builds has these four
  buckets.
\<close>

theorem quality_score_formula:
  "calculate_quality_score
     \<lparr>fb_issues = [(''critical'', c), (''high'', h), (''medium'', m), (''low'', l)],
      fb_recommendations = recs, fb_summary = s\<rparr>
   = py_round (max 0 (min 100
        (100 - (10 * int (length c) + 7 * int (length h) + 4 * int (length m)
                + 1 * int (length l))))) 2
   \<and> py_round (max 0 (min 100
        (100 - (10 * int (length c) + 7 * int (length h) + 4 * int (length m)
                + 1 * int (length l))))) 2
     = max 0 (min 100
        (100 - (10 * int (length c) + 7 * int (length h) + 4 * int (length m)
                + 1 * int (length l))))
   \<and> (\<exists>fb c' h' m' l'. generate_feedback pr_data ars = Inr fb
        \<and> fb_issues fb = [(''critical'', c'), (''high'', h'), (''medium'', m'), (''low'', l')]
        \<and> calculate_quality_score fb
            = max 0 (min 100
                (100 - (10 * int (length c') + 7 * int (length h') + 4 * int (length m')
                        + 1 * int (length l')))))
   \<and> calculate_quality_score
     \<lparr>fb_issues = [(''critical'', []), (''high'', []), (''medium'', []), (''low'', [])],
      fb_recommendations = recs, fb_summary = s\<rparr> = 100
   \<and> calculate_quality_score
     \<lparr>fb_issues = [(''critical'', []), (''high'', [h1, h2]), (''medium'', [m1]), (''low'', [])],
      fb_recommendations = recs, fb_summary = s\<rparr> = 82"
proof -
  have "\<exists>fb c' h' m' l'. generate_feedback pr_data ars = Inr fb
        \<and> fb_issues fb = [(''critical'', c'), (''high'', h'), (''medium'', m'), (''low'', l')]
        \<and> calculate_quality_score fb
            = max 0 (min 100
                (100 - (10 * int (length c') + 7 * int (length h') + 4 * int (length m')
                        + 1 * int (length l'))))"
    by (simp add: generate_feedback_eq calculate_quality_score_eq dict_get_def
        severity_weights_def algebra_simps)
  then show ?thesis
    by (simp add: calculate_quality_score_eq py_round_digits dict_get_def
        severity_weights_def)
qed

text \<open>
  C8. The score never increases when a bucket grows: replacing the issues of any one
  bucket of any report by a list that is at least as long, the other buckets unchanged,
  gives a score that is at most the score before.
\<close>

theorem quality_score_monotone:
  assumes "i < length (fb_issues fb)"
    and "length (snd (fb_issues fb ! i)) \<le> length longer"
  shows "calculate_quality_score
           (fb\<lparr>fb_issues := (fb_issues fb)[i := (fst (fb_issues fb ! i), longer)]\<rparr>)
         \<le> calculate_quality_score fb"
proof -
  let ?w = "\<lambda>item :: string \<times> feedback_issue list.
              int (length (snd item)) * dict_get severity_weights (fst item) 1"
  have "?w (fb_issues fb ! i) \<le> ?w (fst (fb_issues fb ! i), longer)"
    using assms(2) weight_positive [of "fst (fb_issues fb ! i)"]
    by (simp add: mult_right_mono)
  then have "sum_list (map ?w (fb_issues fb))
      \<le> sum_list (map ?w ((fb_issues fb)[i := (fst (fb_issues fb ! i), longer)]))"
    using assms(1) by (simp add: sum_list_map_update)
  then show ?thesis
    by (simp add: calculate_quality_score_eq)
qed

theorem quality_score_monotone_witness:
  "(1::nat) < length [(''critical'', []), (''high'', [\<lparr>f_analyzer = ''radon'', f_file = ''a.py'', f_line = 3,
                 f_message = ''High complexity detected in f: 6 (CC: 2)'', f_code = ''unknown''\<rparr>]), (''medium'', []), (''low'', [])]
   \<and> calculate_quality_score
       \<lparr>fb_issues = [(''critical'', []),
                     (''high'', [\<lparr>f_analyzer = ''radon'', f_file = ''a.py'', f_line = 3,
                                 f_message = ''High complexity detected in f: 6 (CC: 2)'', f_code = ''unknown''\<rparr>,
                                \<lparr>f_analyzer = ''radon'', f_file = ''a.py'', f_line = 9,
                                 f_message = ''High complexity detected in g: 7 (CC: 3)'', f_code = ''unknown''\<rparr>]),
                     (''medium'', []), (''low'', [])],
        fb_recommendations = [],
        fb_summary = \<lparr>total_issues = 1,
                       by_severity = \<lparr>s_critical = 0, s_high = 0, s_medium = 0, s_low = 0\<rparr>,
                       analyzers_used = [''radon'']\<rparr>\<rparr>
     \<le> calculate_quality_score
       \<lparr>fb_issues = [(''critical'', []),
                     (''high'', [\<lparr>f_analyzer = ''radon'', f_file = ''a.py'', f_line = 3,
                                 f_message = ''High complexity detected in f: 6 (CC: 2)'', f_code = ''unknown''\<rparr>]),
                     (''medium'', []), (''low'', [])],
        fb_recommendations = [],
        fb_summary = \<lparr>total_issues = 1,
                       by_severity = \<lparr>s_critical = 0, s_high = 0, s_medium = 0, s_low = 0\<rparr>,
                       analyzers_used = [''radon'']\<rparr>\<rparr>"
  using quality_score_monotone
    [of 1 "\<lparr>fb_issues = [(''critical'', []),
                     (''high'', [\<lparr>f_analyzer = ''radon'', f_file = ''a.py'', f_line = 3,
                                 f_message = ''High complexity detected in f: 6 (CC: 2)'', f_code = ''unknown''\<rparr>]),
                     (''medium'', []), (''low'', [])],
        fb_recommendations = [],
        fb_summary = \<lparr>total_issues = 1,
                       by_severity = \<lparr>s_critical = 0, s_high = 0, s_medium = 0, s_low = 0\<rparr>,
                       analyzers_used = [''radon'']\<rparr>\<rparr>"
        "[\<lparr>f_analyzer = ''radon'', f_file = ''a.py'', f_line = 3,
                                 f_message = ''High complexity detected in f: 6 (CC: 2)'', f_code = ''unknown''\<rparr>,
                                \<lparr>f_analyzer = ''radon'', f_file = ''a.py'', f_line = 9,
                                 f_message = ''High complexity detected in g: 7 (CC: 3)'', f_code = ''unknown''\<rparr>]"]
  by simp

section \<open>Feedback generator: results without issues\<close>

lemma bucket_of_no_issues:
  "list_all (\<lambda>(n, r). result_issues r = []) ars \<Longrightarrow> bucket_of k ars = []"
  by (induction ars) (auto simp: bucket_of_def)

lemma all_issues_no_issues:
  "list_all (\<lambda>(n, r). result_issues r = []) ars \<Longrightarrow> all_issues ars = []"
  by (induction ars) (auto simp: all_issues_def)

lemma counter_sum_zero:
  "list_all (\<lambda>(n, r). r_total_issues r = None \<or> counter r = Some 0) ars \<Longrightarrow>
   counter_sum counter ars = 0"
  by (induction ars) (auto simp: counter_sum_def get0_def split: option.splits)

lemma appended_recommendations_none:
  "all_issues ars = [] \<Longrightarrow> appended_recommendations ars 0 0 0 = [rec_style, rec_review]"
  by (simp add: appended_recommendations_def has_security_issues_def
      has_performance_issues_def has_documentation_issues_def scan_results_eq)

text \<open>
  C9. When every adapter returns a result with zero issues (an empty \<open>issues\<close> list and
  \<open>total_issues\<close> 0), the synthesized report has \<open>total_issues\<close> 0 in its summary, its
  four buckets are empty, and its recommendations are the two fixed advisories and
  nothing else.
\<close>

theorem no_issues_feedback:
  assumes "list_all (\<lambda>(analyzer_name, result).
                       r_issues result = Some [] \<and> r_total_issues result = Some 0) ars"
  shows "\<exists>fb. generate_feedback pr_data ars = Inr fb
    \<and> total_issues (fb_summary fb) = 0
    \<and> fb_issues fb = [(''critical'', []), (''high'', []), (''medium'', []), (''low'', [])]
    \<and> fb_recommendations fb = [rec_style, rec_review]"
proof -
  have none: "list_all (\<lambda>(n, r). result_issues r = []) ars"
    using assms by (auto simp: list_all_iff result_issues_def)
  have zero: "list_all (\<lambda>(n, r). r_total_issues r = None \<or> r_total_issues r = Some 0) ars"
    using assms by (auto simp: list_all_iff)
  show ?thesis
    by (simp add: generate_feedback_eq generate_summary_eq bucket_of_no_issues [OF none]
        all_issues_no_issues [OF none] appended_recommendations_none
        counter_sum_zero [OF zero])
qed

theorem no_issues_feedback_witness:
  "list_all (\<lambda>(analyzer_name, result).
               r_issues result = Some [] \<and> r_total_issues result = Some 0) clean_results
   \<and> (\<exists>fb. generate_feedback example_files clean_results = Inr fb
         \<and> total_issues (fb_summary fb) = 0
         \<and> fb_issues fb = [(''critical'', []), (''high'', []), (''medium'', []), (''low'', [])]
         \<and> fb_recommendations fb =
             [''Ensure all code follows the project's style guidelines'',
              ''Review all identified issues before merging''])"
proof -
  have clean: "list_all (\<lambda>(analyzer_name, result).
               r_issues result = Some [] \<and> r_total_issues result = Some 0) clean_results"
    by (simp add: clean_results_def)
  from no_issues_feedback [OF clean, of example_files] clean show ?thesis
    by (simp add: rec_style_def rec_review_def)
qed

section \<open>Orchestrator: an adapter that raises\<close>

lemma error_result_fields:
  "r_issues (error_result e) = None" "r_total_issues (error_result e) = None"
  by (simp_all add: error_result_def)

lemma bucket_of_error_result: "bucket_of k (xs @ (n, error_result e) # ys) = bucket_of k (xs @ ys)"
  by (simp add: bucket_of_def result_issues_def error_result_fields)

lemma all_issues_error_result: "all_issues (xs @ (n, error_result e) # ys) = all_issues (xs @ ys)"
  by (simp add: all_issues_def result_issues_def error_result_fields)

lemma counter_sum_error_result:
  "counter_sum counter (xs @ (n, error_result e) # ys) = counter_sum counter (xs @ ys)"
  by (simp add: counter_sum_def error_result_fields)

lemma appended_recommendations_cong:
  "all_issues ars = all_issues ars' \<Longrightarrow>
   appended_recommendations ars c h m = appended_recommendations ars' c h m"
  by (simp add: appended_recommendations_def has_security_issues_def
      has_performance_issues_def has_documentation_issues_def scan_results_eq)

lemma generate_feedback_error_result:
  "\<exists>fb fb'. generate_feedback pr_data (xs @ (n, error_result e) # ys) = Inr fb
     \<and> generate_feedback pr_data (xs @ ys) = Inr fb'
     \<and> fb_issues fb = fb_issues fb'
     \<and> fb_recommendations fb = fb_recommendations fb'
     \<and> total_issues (fb_summary fb) = total_issues (fb_summary fb')
     \<and> by_severity (fb_summary fb) = by_severity (fb_summary fb')
     \<and> analyzers_used (fb_summary fb) = map fst xs @ n # map fst ys"
  using appended_recommendations_cong [OF all_issues_error_result [of xs n e ys]]
  by (simp add: generate_feedback_eq generate_summary_eq bucket_of_error_result
      counter_sum_error_result)

lemma run_analyzers_append:
  "run_analyzers (xs @ ys) files w acc =
     (case run_analyzers xs files w acc of (acc', w') \<Rightarrow> run_analyzers ys files w' acc')"
  by (induction xs arbitrary: w acc) (auto split: prod.splits sum.splits)

lemma dict_set_fresh: "k \<notin> set (map fst d) \<Longrightarrow> dict_set d k v = d @ [(k, v)]"
  by (simp add: dict_set_def)

lemma run_analyzers_fresh:
  "distinct (map fst as) \<Longrightarrow> set (map fst as) \<inter> set (map fst acc) = {} \<Longrightarrow>
   \<exists>new. fst (run_analyzers as files w acc) = acc @ new \<and> map fst new = map fst as"
proof (induction as arbitrary: w acc)
  case Nil
  then show ?case by simp
next
  case (Cons a as)
  obtain n f where a: "a = (n, f)" by (cases a)
  obtain r w' where run: "f files w = (r, w')" by (cases "f files w")
  define entry where "entry = (case r of Inr result \<Rightarrow> result | Inl e \<Rightarrow> error_result e)"
  have fresh: "n \<notin> set (map fst acc)" using Cons.prems a by auto
  have step: "run_analyzers ((n, f) # as) files w acc
      = run_analyzers as files w' (acc @ [(n, entry)])"
    using run fresh by (cases r) (simp_all add: entry_def dict_set_fresh)
  have "distinct (map fst as)" "set (map fst as) \<inter> set (map fst (acc @ [(n, entry)])) = {}"
    using Cons.prems a by auto
  from Cons.IH [OF this, of w'] obtain new where
    "fst (run_analyzers as files w' (acc @ [(n, entry)])) = (acc @ [(n, entry)]) @ new"
    "map fst new = map fst as" by blast
  then show ?case
    by (intro exI [of _ "(n, entry) # new"]) (simp add: a step del: run_analyzers.simps)
qed

text \<open>
  C10. When \<open>analyze\<close> of an adapter raises, the orchestrator records under the adapter's
  name the entry that holds only the error: it has neither \<open>issues\<close> nor
  \<open>total_issues\<close>. The feedback generator returns a report for the map with that entry;
  the buckets, \<open>total_issues\<close> and \<open>by_severity\<close> of the report are those of the
  report for the map without the entry, and \<open>analyzers_used\<close> has the adapter's name at
  the entry's place. The analyzers have distinct names, as the keys of a dictionary.
\<close>

theorem raised_adapter_recorded:
  assumes "distinct (map fst (before @ (name, analyze) # after))"
    and "run_analyzers before changed_files w [] = (results_before, w1)"
    and "analyze changed_files w1 = (Inl e, w2)"
  shows "\<exists>results_after fb fb'.
      fst (run_analyzers (before @ (name, analyze) # after) changed_files w [])
        = results_before @ (name, error_result e) # results_after
    \<and> r_issues (error_result e) = None
    \<and> r_total_issues (error_result e) = None
    \<and> generate_feedback pr_data (results_before @ (name, error_result e) # results_after)
        = Inr fb
    \<and> generate_feedback pr_data (results_before @ results_after) = Inr fb'
    \<and> fb_issues fb = fb_issues fb'
    \<and> total_issues (fb_summary fb) = total_issues (fb_summary fb')
    \<and> by_severity (fb_summary fb) = by_severity (fb_summary fb')
    \<and> analyzers_used (fb_summary fb) = map fst results_before @ name # map fst results_after"
proof -
  from run_analyzers_fresh [of before "[]" changed_files w] assms(1,2)
  have names: "map fst results_before = map fst before" by auto
  then have fresh: "name \<notin> set (map fst results_before)"
    using assms(1) by auto
  have "distinct (map fst after)"
    "set (map fst after) \<inter> set (map fst (results_before @ [(name, error_result e)])) = {}"
    using assms(1) names by auto
  from run_analyzers_fresh [OF this, of changed_files w2] obtain results_after where
    after: "fst (run_analyzers after changed_files w2 (results_before @ [(name, error_result e)]))
      = (results_before @ [(name, error_result e)]) @ results_after" by blast
  have run: "fst (run_analyzers (before @ (name, analyze) # after) changed_files w [])
      = results_before @ (name, error_result e) # results_after"
    using after by (simp add: run_analyzers_append assms(2,3) dict_set_fresh [OF fresh])
  from generate_feedback_error_result [of pr_data results_before name e results_after]
  obtain fb fb' where
    "generate_feedback pr_data (results_before @ (name, error_result e) # results_after) = Inr fb"
    "generate_feedback pr_data (results_before @ results_after) = Inr fb'"
    "fb_issues fb = fb_issues fb'"
    "total_issues (fb_summary fb) = total_issues (fb_summary fb')"
    "by_severity (fb_summary fb) = by_severity (fb_summary fb')"
    "analyzers_used (fb_summary fb) = map fst results_before @ name # map fst results_after"
    by blast
  with run show ?thesis
    by (intro exI [of _ results_after] exI [of _ fb] exI [of _ fb'])
       (simp add: error_result_fields)
qed

theorem raised_adapter_recorded_witness:
  "distinct (map fst (analyzers disk_full_env))
   \<and> flake8_analyze disk_full_env example_files 0 = (Inl ''No space left on device'', 0)
   \<and> (\<exists>results_after fb fb'.
        fst (run_analyzers (analyzers disk_full_env) example_files 0 [])
          = (''flake8'', error_result ''No space left on device'') # results_after
      \<and> r_issues (error_result ''No space left on device'') = None
      \<and> r_total_issues (error_result ''No space left on device'') = None
      \<and> generate_feedback example_files
           ((''flake8'', error_result ''No space left on device'') # results_after) = Inr fb
      \<and> generate_feedback example_files results_after = Inr fb'
      \<and> fb_issues fb = fb_issues fb'
      \<and> total_issues (fb_summary fb) = total_issues (fb_summary fb')
      \<and> by_severity (fb_summary fb) = by_severity (fb_summary fb')
      \<and> analyzers_used (fb_summary fb) = ''flake8'' # map fst results_after)"
proof -
  have names: "distinct (map fst ([] @ (''flake8'', flake8_analyze disk_full_env)
      # [(''pylint'', pylint_analyze disk_full_env), (''radon'', radon_analyze disk_full_env)]))"
    by simp
  have before: "run_analyzers [] example_files (0::nat) [] = ([], 0)"
    by simp
  have raises: "flake8_analyze disk_full_env example_files 0 = (Inl ''No space left on device'', 0)"
    by (simp add: flake8_analyze_def example_files_def eligible_def analyze_file_def
        disk_full_env_def)
  from raised_adapter_recorded [OF names before raises, of example_files] raises
  show ?thesis
    by (simp add: analyzers_def)
qed

text \<open>
  Every map the orchestrator builds from the three adapters is one of the maps of C2: an
  adapter's result has \<open>total_issues\<close>, and the entry of an adapter that raised has no
  counter.
\<close>

lemma dict_set_all:
  "list_all (\<lambda>(n, r). P r) d \<Longrightarrow> P v \<Longrightarrow> list_all (\<lambda>(n, r). P r) (dict_set d k v)"
  by (auto simp: dict_set_def list_all_iff split: if_splits)

lemma run_analyzers_all:
  assumes "\<And>n f w r w'. (n, f) \<in> set as \<Longrightarrow> f files w = (Inr r, w') \<Longrightarrow> P r"
    and "\<And>e. P (error_result e)"
    and "list_all (\<lambda>(n, r). P r) acc"
  shows "list_all (\<lambda>(n, r). P r) (fst (run_analyzers as files w acc))"
  using assms
proof (induction as arbitrary: w acc)
  case Nil
  then show ?case by simp
next
  case (Cons a as)
  obtain n f where a: "a = (n, f)" by (cases a)
  obtain r w' where run: "f files w = (r, w')" by (cases "f files w")
  have tail: "\<And>n f w r w'. (n, f) \<in> set as \<Longrightarrow> f files w = (Inr r, w') \<Longrightarrow> P r"
    using Cons.prems(1) by (meson list.set_intros(2))
  show ?case
  proof (cases r)
    case (Inl e)
    have "list_all (\<lambda>(n, r). P r) (dict_set acc n (error_result e))"
      by (rule dict_set_all [OF Cons.prems(3) Cons.prems(2)])
    from Cons.IH [OF tail Cons.prems(2) this, where w = w'] show ?thesis
      by (simp add: a run Inl)
  next
    case (Inr res)
    have "P res" using Cons.prems(1) [of n f w res w'] run Inr a by simp
    then have "list_all (\<lambda>(n, r). P r) (dict_set acc n res)"
      by (rule dict_set_all [OF Cons.prems(3)])
    from Cons.IH [OF tail Cons.prems(2) this, where w = w'] show ?thesis
      by (simp add: a run Inr)
  qed
qed

lemma adapter_results_have_total:
  "flake8_analyze env files w = (Inr r, w') \<Longrightarrow> r_total_issues r \<noteq> None"
  "pylint_analyze env files w = (Inr r, w') \<Longrightarrow> r_total_issues r \<noteq> None"
  "radon_analyze env files w = (Inr r, w') \<Longrightarrow> r_total_issues r \<noteq> None"
  by (auto simp: flake8_analyze_def pylint_analyze_def radon_analyze_def
      split: prod.splits sum.splits)

lemma orchestrator_results_counters_need_total:
  "list_all (\<lambda>(analyzer_name, result). counters_need_total result)
     (fst (run_analyzers (analyzers env) files w []))"
proof (rule run_analyzers_all)
  fix n f w r w'
  assume "(n, f) \<in> set (analyzers env)" "f files w = (Inr r, w')"
  then have "r_total_issues r \<noteq> None"
    using adapter_results_have_total [of env files w r w'] by (auto simp: analyzers_def)
  then show "counters_need_total r" by (auto simp: counters_need_total_def)
next
  fix e
  show "counters_need_total (error_result e)"
    by (simp add: counters_need_total_def error_result_def)
qed simp

section \<open>Adapters: the files that are analyzed\<close>

lemma analyze_files_filter:
  "analyze_files env tool (filter eligible files) w acc = analyze_files env tool files w acc"
proof (induction files arbitrary: w acc)
  case Nil
  then show ?case by simp
next
  case (Cons f files)
  then show ?case
    by (cases "analyze_file env tool f w acc") (auto split: sum.splits)
qed

lemma eligible_not_removed:
  "eligible f \<Longrightarrow> cf_status f \<notin> set [''removed'', ''renamed'']"
  by (auto simp: eligible_def)

lemma filter_eligible_kept:
  "filter eligible (filter (\<lambda>f. cf_status f \<notin> set [''removed'', ''renamed'']) files)
     = filter eligible files"
  using eligible_not_removed by (auto intro!: filter_cong)

lemma analyze_files_skip_removed:
  "analyze_files env tool (filter (\<lambda>f. cf_status f \<notin> set [''removed'', ''renamed'']) files) w acc
     = analyze_files env tool files w acc"
  using analyze_files_filter [of env tool "filter (\<lambda>f. cf_status f \<notin> set [''removed'', ''renamed'']) files" w acc]
    analyze_files_filter [of env tool files w acc]
  by (simp only: filter_eligible_kept)

lemma handle_outcome_invariant:
  assumes "I acc"
    and "\<And>out a. I a \<Longrightarrow> I (snd (t_parse tool filename out a))"
    and "\<And>msg a. I a \<Longrightarrow> I (fst a @ [synthetic_issue filename msg], snd a)"
  shows "I (handle_outcome tool filename outcome acc)"
proof (cases outcome)
  case FileNotFoundError
  then show ?thesis using assms(1,3) by (simp add: handle_outcome_def)
next
  case (RaisedException e)
  then show ?thesis using assms(1,3) by (simp add: handle_outcome_def)
next
  case (CompletedProcess out err)
  define p where "p = (if out \<noteq> [] then t_parse tool filename out acc else (None, acc))"
  have "I (snd p)"
    using assms(1,2) by (simp add: p_def)
  then have "I (fst (snd p) @ [synthetic_issue filename msg], snd (snd p))" for msg
    using assms(3) [of "snd p" msg] by simp
  with \<open>I (snd p)\<close> show ?thesis
    unfolding handle_outcome_def CompletedProcess
    by (cases p; cases "fst p") (auto simp: p_def [symmetric])
qed

lemma analyze_files_invariant:
  assumes "I acc"
    and "\<And>f out a. f \<in> set files \<Longrightarrow> eligible f \<Longrightarrow> I a
            \<Longrightarrow> I (snd (t_parse tool (cf_filename f) out a))"
    and "\<And>f msg a. f \<in> set files \<Longrightarrow> eligible f \<Longrightarrow> I a
            \<Longrightarrow> I (fst a @ [synthetic_issue (cf_filename f) msg], snd a)"
    and "analyze_files env tool files w acc = (Inr acc', w')"
  shows "I acc'"
  using assms
proof (induction files arbitrary: w acc)
  case Nil
  then show ?case by simp
next
  case (Cons f files)
  show ?case
  proof (cases "eligible f")
    case False
    with Cons.prems(4) have "analyze_files env tool files w acc = (Inr acc', w')" by simp
    with Cons.IH [OF Cons.prems(1)] Cons.prems(2,3) show ?thesis by auto
  next
    case True
    obtain r w1 where one: "analyze_file env tool f w acc = (r, w1)"
      by (cases "analyze_file env tool f w acc")
    with True Cons.prems(4) obtain acc1 where r: "r = Inr acc1"
      and rest: "analyze_files env tool files w1 acc1 = (Inr acc', w')"
      by (cases r) auto
    from one r have "\<exists>outcome. acc1 = handle_outcome tool (cf_filename f) outcome acc"
      by (auto simp: analyze_file_def Let_def split: prod.splits sum.splits)
    then obtain outcome where acc1: "acc1 = handle_outcome tool (cf_filename f) outcome acc" ..
    have "I acc1"
      unfolding acc1
      by (rule handle_outcome_invariant [where I = I and acc = acc])
         (use True Cons.prems(1,2,3) in auto)
    from Cons.IH [OF this _ _ rest] Cons.prems(2,3) show ?thesis by auto
  qed
qed


lemma tagged_refl: "tagged filename issues issues"
  by (simp add: tagged_def)

lemma tagged_synthetic: "tagged filename issues (issues @ [synthetic_issue filename msg])"
  by (simp add: tagged_def synthetic_issue_def)

lemma tagged_trans:
  "tagged filename a b \<Longrightarrow> tagged filename b c \<Longrightarrow> tagged filename a c"
  by (auto simp: tagged_def)

lemma tagged_append:
  "i_file i = Some filename \<Longrightarrow> tagged filename issues (issues @ [i])"
  by (simp add: tagged_def)

lemma flake8_line_tagged:
  "flake8_line to_int filename line acc = Inr acc' \<Longrightarrow> tagged filename (fst acc) (fst acc')"
  by (cases acc)
     (auto simp: flake8_line_def Let_def tagged_refl tagged_append
           split: if_splits sum.splits)

lemma flake8_lines_tagged:
  "tagged filename (fst acc) (fst (snd (flake8_lines to_int filename lines acc)))"
proof (induction lines arbitrary: acc)
  case Nil
  then show ?case by (simp add: tagged_refl)
next
  case (Cons line lines)
  show ?case
  proof (cases "flake8_line to_int filename line acc")
    case (Inl e)
    then show ?thesis by (simp add: tagged_refl)
  next
    case (Inr acc')
    from tagged_trans [OF flake8_line_tagged [OF Inr] Cons.IH [of acc']] Inr
    show ?thesis by simp
  qed
qed

lemma pylint_item_step_tagged:
  "pylint_item_step filename item acc = Inr acc' \<Longrightarrow> tagged filename (fst acc) (fst acc')"
  by (cases acc)
     (auto simp: pylint_item_step_def tagged_append split: option.splits)

lemma pylint_items_tagged:
  "tagged filename (fst acc) (fst (snd (pylint_items filename items acc)))"
proof (induction items arbitrary: acc)
  case Nil
  then show ?case by (simp add: tagged_refl)
next
  case (Cons item items)
  show ?case
  proof (cases "pylint_item_step filename item acc")
    case (Inl e)
    then show ?thesis by (simp add: tagged_refl)
  next
    case (Inr acc')
    from tagged_trans [OF pylint_item_step_tagged [OF Inr] Cons.IH [of acc']] Inr
    show ?thesis by simp
  qed
qed

lemma radon_item_step_tagged:
  "radon_item_step filename item acc = Inr acc' \<Longrightarrow> tagged filename (fst acc) (fst acc')"
  by (cases acc)
     (auto simp: radon_item_step_def tagged_append tagged_refl complexity_issue_def
           split: option.splits if_splits)

lemma radon_items_tagged:
  "tagged filename (fst acc) (fst (snd (radon_items filename items acc)))"
proof (induction items arbitrary: acc)
  case Nil
  then show ?case by (simp add: tagged_refl)
next
  case (Cons item items)
  show ?case
  proof (cases "radon_item_step filename item acc")
    case (Inl e)
    then show ?thesis by (simp add: tagged_refl)
  next
    case (Inr acc')
    from tagged_trans [OF radon_item_step_tagged [OF Inr] Cons.IH [of acc']] Inr
    show ?thesis by simp
  qed
qed

lemma flake8_parse_tagged:
  "tagged filename (fst acc) (fst (snd (t_parse (flake8_tool env) filename out acc)))"
  by (simp add: flake8_tool_def flake8_lines_tagged)

lemma pylint_parse_tagged:
  "tagged filename (fst acc) (fst (snd (t_parse (pylint_tool env) filename out acc)))"
  by (cases "pylint_loads env out")
     (simp_all add: pylint_tool_def pylint_items_tagged tagged_synthetic)

lemma radon_parse_tagged:
  "tagged filename (fst acc) (fst (snd (t_parse (radon_tool env) filename out acc)))"
  by (cases "radon_loads env out")
     (simp_all add: radon_tool_def radon_items_tagged tagged_synthetic)


lemma analyze_files_from_eligible:
  fixes tool :: "'a tool"
  assumes parse: "\<And>filename out a.
            tagged filename (fst a) (fst (snd (t_parse tool filename out a)))"
    and run: "analyze_files env tool files w ([], c) = (Inr acc', w')"
  shows "list_all (from_eligible files) (fst acc')"
proof -
  let ?I = "\<lambda>a :: issue list \<times> 'a. list_all (from_eligible files) (fst a)"
  have own: "from_eligible files i"
    if "f \<in> set files" "eligible f" "i_file i = Some (cf_filename f)" for f i
    using that unfolding from_eligible_def eligible_def list_ex_iff by blast
  have "?I acc'"
  proof (rule analyze_files_invariant [where I = ?I, OF _ _ _ run])
    show "?I ([], c)" by simp
  next
    fix f out a
    assume f: "f \<in> set files" "eligible f" and a: "?I a"
    from parse [of "cf_filename f" a out] obtain new where
      new: "fst (snd (t_parse tool (cf_filename f) out a)) = fst a @ new"
        "list_all (\<lambda>i. i_file i = Some (cf_filename f)) new"
      unfolding tagged_def by blast
    from new(2) own [OF f] have "list_all (from_eligible files) new"
      by (simp add: list_all_iff)
    with a new(1) show "?I (snd (t_parse tool (cf_filename f) out a))" by simp
  next
    fix f msg a
    assume f: "f \<in> set files" "eligible f" and a: "?I a"
    have "from_eligible files (synthetic_issue (cf_filename f) msg)"
      by (rule own [OF f]) (simp add: synthetic_issue_def)
    with a show "?I (fst a @ [synthetic_issue (cf_filename f) msg], snd a)" by simp
  qed
  then show ?thesis .
qed

lemma flake8_analyze_skip:
  "flake8_analyze env (filter (\<lambda>f. cf_status f \<notin> set [''removed'', ''renamed'']) files) w
     = flake8_analyze env files w"
  by (simp only: flake8_analyze_def analyze_files_skip_removed)

lemma pylint_analyze_skip:
  "pylint_analyze env (filter (\<lambda>f. cf_status f \<notin> set [''removed'', ''renamed'']) files) w
     = pylint_analyze env files w"
  by (simp only: pylint_analyze_def analyze_files_skip_removed)

lemma radon_analyze_skip:
  "radon_analyze env (filter (\<lambda>f. cf_status f \<notin> set [''removed'', ''renamed'']) files) w
     = radon_analyze env files w"
  by (simp only: radon_analyze_def analyze_files_skip_removed)

lemma flake8_analyze_issues:
  assumes "flake8_analyze env files w = (Inr res, w')"
  shows "\<exists>issues. r_issues res = Some issues \<and> r_total_issues res = Some (int (length issues))
           \<and> list_all (from_eligible files) issues"
proof -
  obtain r w1 where run: "analyze_files env (flake8_tool env) files w ([], 0, 0) = (r, w1)"
    by (cases "analyze_files env (flake8_tool env) files w ([], 0, 0)")
  with assms obtain acc where r: "r = Inr acc"
    by (cases r) (auto simp: flake8_analyze_def)
  from analyze_files_from_eligible [OF flake8_parse_tagged run [unfolded r]]
  have "list_all (from_eligible files) (fst acc)" .
  with assms run r show ?thesis
    by (cases acc) (auto simp: flake8_analyze_def)
qed

lemma pylint_analyze_issues:
  assumes "pylint_analyze env files w = (Inr res, w')"
  shows "\<exists>issues. r_issues res = Some issues \<and> r_total_issues res = Some (int (length issues))
           \<and> list_all (from_eligible files) issues"
proof -
  obtain r w1 where run: "analyze_files env (pylint_tool env) files w ([], 0, 0, 0) = (r, w1)"
    by (cases "analyze_files env (pylint_tool env) files w ([], 0, 0, 0)")
  with assms obtain acc where r: "r = Inr acc"
    by (cases r) (auto simp: pylint_analyze_def)
  from analyze_files_from_eligible [OF pylint_parse_tagged run [unfolded r]]
  have "list_all (from_eligible files) (fst acc)" .
  with assms run r show ?thesis
    by (cases acc) (auto simp: pylint_analyze_def)
qed

lemma radon_analyze_issues:
  assumes "radon_analyze env files w = (Inr res, w')"
  shows "\<exists>issues. r_issues res = Some issues \<and> r_total_issues res = Some (int (length issues))
           \<and> list_all (from_eligible files) issues"
proof -
  obtain r w1 where run: "analyze_files env (radon_tool env) files w ([], 0) = (r, w1)"
    by (cases "analyze_files env (radon_tool env) files w ([], 0)")
  with assms obtain acc where r: "r = Inr acc"
    by (cases r) (auto simp: radon_analyze_def)
  from analyze_files_from_eligible [OF radon_parse_tagged run [unfolded r]]
  have "list_all (from_eligible files) (fst acc)" .
  with assms run r show ?thesis
    by (cases acc) (auto simp: radon_analyze_def)
qed

text \<open>
  C3. For each of the three adapters and every sequence of changed files: the files
  whose status is \<open>removed\<close> or \<open>renamed\<close> are not analyzed, that is, the result
  (issues and counters) and the state of the outside world are those of the sequence
  without these files; and every issue of a returned result names a file of the sequence
  whose status is \<open>added\<close> or \<open>modified\<close>, \<open>total_issues\<close> being the number of the
  issues.
\<close>

theorem removed_renamed_never_analyzed:
  assumes "analyze = flake8_analyze env \<or> analyze = pylint_analyze env
             \<or> analyze = radon_analyze env"
  shows "analyze (filter (\<lambda>f. cf_status f \<notin> set [''removed'', ''renamed'']) files) w
           = analyze files w
    \<and> (\<forall>res w'. analyze files w = (Inr res, w') \<longrightarrow>
          (\<exists>issues. r_issues res = Some issues
             \<and> r_total_issues res = Some (int (length issues))
             \<and> list_all (from_eligible files) issues))"
proof -
  consider "analyze = flake8_analyze env" | "analyze = pylint_analyze env"
    | "analyze = radon_analyze env"
    using assms by blast
  then show ?thesis
  proof cases
    case 1
    show ?thesis
      unfolding 1 using flake8_analyze_skip [of env files w] flake8_analyze_issues [of env files w]
      by blast
  next
    case 2
    show ?thesis
      unfolding 2 using pylint_analyze_skip [of env files w] pylint_analyze_issues [of env files w]
      by blast
  next
    case 3
    show ?thesis
      unfolding 3 using radon_analyze_skip [of env files w] radon_analyze_issues [of env files w]
      by blast
  qed
qed

lemma flake8_missing_example:
  "flake8_analyze missing_tools_env example_files 0 =
     (Inr \<lparr>r_total_issues = Some 2, r_errors = Some 0, r_warnings = Some 0, r_infos = None,
           r_complexity_issues = None,
           r_issues = Some
             [\<lparr>i_file = Some ''app.py'', i_line = None, i_column = None, i_code = None,
               i_message = Some ''Flake8 not installed or not in PATH'',
               i_severity = Some ''error'', i_details = None\<rparr>,
              \<lparr>i_file = Some ''lib.py'', i_line = None, i_column = None, i_code = None,
               i_message = Some ''Flake8 not installed or not in PATH'',
               i_severity = Some ''error'', i_details = None\<rparr>],
           r_error = None\<rparr>, 2)"
  by (simp add: flake8_analyze_def example_files_def eligible_def analyze_file_def
      missing_tools_env_def handle_outcome_def synthetic_issue_def not_installed_def
      flake8_tool_def)

theorem removed_renamed_never_analyzed_witness:
  "(flake8_analyze missing_tools_env = flake8_analyze missing_tools_env
      \<or> flake8_analyze missing_tools_env = pylint_analyze missing_tools_env
      \<or> flake8_analyze missing_tools_env = radon_analyze missing_tools_env)
   \<and> flake8_analyze missing_tools_env
        (filter (\<lambda>f. cf_status f \<notin> set [''removed'', ''renamed'']) example_files) 0
       = flake8_analyze missing_tools_env example_files 0
   \<and> (\<exists>res issues. flake8_analyze missing_tools_env example_files 0 = (Inr res, 2)
         \<and> r_issues res = Some issues
         \<and> r_total_issues res = Some (int (length issues))
         \<and> map i_file issues = [Some ''app.py'', Some ''lib.py'']
         \<and> list_all (from_eligible example_files) issues)"
proof -
  have adapter: "flake8_analyze missing_tools_env = flake8_analyze missing_tools_env
      \<or> flake8_analyze missing_tools_env = pylint_analyze missing_tools_env
      \<or> flake8_analyze missing_tools_env = radon_analyze missing_tools_env"
    by simp
  from removed_renamed_never_analyzed [OF adapter, of example_files 0]
  show ?thesis
    by (simp add: flake8_missing_example)
qed

section \<open>Adapters: a tool that is not installed\<close>



















section \<open>Complexity adapter: the threshold\<close>

lemma synthetic_not_flagged: "\<not> flagged (synthetic_issue filename msg)"
  by (simp add: flagged_def synthetic_issue_def)

lemma counted_flagged_synthetic:
  "counted_flagged a \<Longrightarrow> counted_flagged (fst a @ [synthetic_issue filename msg], snd a)"
  by (simp add: counted_flagged_def synthetic_not_flagged)

lemma complexity_issue_flagged:
  "flagged (complexity_issue filename item complexity name loc lloc cc)"
  "above_threshold (complexity_issue filename item complexity name loc lloc cc)
     = (complexity_threshold < complexity)"
  by (simp_all add: flagged_def above_threshold_def complexity_issue_def)

lemma radon_item_step_cases:
  "radon_item_step filename item acc = Inr acc' \<Longrightarrow>
     acc' = acc \<or> (\<exists>i. flagged i \<and> above_threshold i \<and> acc' = (fst acc @ [i], snd acc + 1))"
  by (cases acc)
     (auto simp: radon_item_step_def complexity_issue_flagged
           split: option.splits if_splits)

lemma counted_flagged_append:
  "counted_flagged acc \<Longrightarrow> flagged i \<Longrightarrow> above_threshold i
     \<Longrightarrow> counted_flagged (fst acc @ [i], snd acc + 1)"
  by (simp add: counted_flagged_def)

lemma radon_item_step_counted:
  "counted_flagged acc \<Longrightarrow> radon_item_step filename item acc = Inr acc'
     \<Longrightarrow> counted_flagged acc'"
  using radon_item_step_cases [of filename item acc acc'] counted_flagged_append [of acc]
  by blast

lemma radon_items_counted:
  "counted_flagged acc \<Longrightarrow> counted_flagged (snd (radon_items filename items acc))"
proof (induction items arbitrary: acc)
  case Nil
  then show ?case by simp
next
  case (Cons item items)
  show ?case
  proof (cases "radon_item_step filename item acc")
    case (Inl e)
    with Cons.prems show ?thesis by simp
  next
    case (Inr acc')
    from Cons.IH [OF radon_item_step_counted [OF Cons.prems Inr]] Inr
    show ?thesis by simp
  qed
qed

lemma radon_parse_counted:
  "counted_flagged acc \<Longrightarrow> counted_flagged (snd (t_parse (radon_tool env) filename out acc))"
  by (cases "radon_loads env out")
     (simp_all add: radon_tool_def radon_items_counted counted_flagged_synthetic)

lemma radon_analyze_counted:
  assumes "radon_analyze env files w = (Inr res, w')"
  shows "r_complexity_issues res = Some (int (length (filter flagged (result_issues res))))
    \<and> list_all (\<lambda>i. \<not> flagged i \<or> above_threshold i) (result_issues res)"
proof -
  obtain r w1 where run: "analyze_files env (radon_tool env) files w ([], 0) = (r, w1)"
    by (cases "analyze_files env (radon_tool env) files w ([], 0)")
  with assms obtain acc where r: "r = Inr acc"
    by (cases r) (auto simp: radon_analyze_def)
  have "counted_flagged acc"
  proof (rule analyze_files_invariant [where I = counted_flagged, OF _ _ _ run [unfolded r]])
    show "counted_flagged ([], 0)" by (simp add: counted_flagged_def)
  qed (simp_all add: radon_parse_counted counted_flagged_synthetic)
  with assms run r show ?thesis
    by (cases acc) (auto simp: radon_analyze_def counted_flagged_def result_issues_def)
qed

text \<open>
  C7. The complexity adapter flags a unit only when its score is greater than the
  threshold 5: a unit that has all the keys the adapter reads adds one issue of
  severity \<open>warning\<close>, with the name of the unit and its score in \<open>details\<close>, and 1 to
  the counter when its score exceeds 5, and nothing otherwise; a score of 5 adds nothing.
  In every result the adapter returns, \<open>complexity_issues\<close> is the number of flagged
  issues, and every flagged issue holds in its \<open>details\<close> a score above the threshold.
\<close>

theorem complexity_flagged_above_threshold:
  "radon_item_step filename
     \<lparr>ri_complexity = Some complexity, ri_name = Some name, ri_loc = Some loc,
      ri_lloc = Some lloc, ri_cc = Some cc, ri_start_line = start_line\<rparr> (issues, n)
   = (if complexity > 5
      then Inr (issues @
                 [\<lparr>i_file = Some filename,
                   i_line = Some (case start_line of Some l \<Rightarrow> l | None \<Rightarrow> 0),
                   i_column = None, i_code = None,
                   i_message = Some (''High complexity detected in '' @ name @ '': ''
                                       @ str_int complexity @ '' (CC: '' @ str_int cc @ '')''),
                   i_severity = Some ''warning'',
                   i_details = Some \<lparr>d_complexity = complexity, d_name = name, d_loc = loc,
                                       d_lloc = lloc, d_cc = cc\<rparr>\<rparr>],
                n + 1)
      else Inr (issues, n))
   \<and> radon_item_step filename
        \<lparr>ri_complexity = Some 5, ri_name = Some name, ri_loc = Some loc,
         ri_lloc = Some lloc, ri_cc = Some cc, ri_start_line = start_line\<rparr> (issues, n)
      = Inr (issues, n)
   \<and> (\<forall>res w'. radon_analyze env files w = (Inr res, w') \<longrightarrow>
         r_complexity_issues res = Some (int (length (filter flagged (result_issues res))))
         \<and> list_all (\<lambda>i. \<not> flagged i \<or> above_threshold i) (result_issues res))"
  using radon_analyze_counted [of env files w]
  by (simp add: radon_item_step_def complexity_issue_def complexity_threshold_def)

theorem complexity_flagged_above_threshold_witness:
  "(\<exists>res. radon_analyze radon_units_env example_files 0 = (Inr res, 2)
      \<and> r_complexity_issues res = Some 2
      \<and> map i_details (result_issues res) =
           [Some \<lparr>d_complexity = 6, d_name = ''g'', d_loc = 20, d_lloc = 15, d_cc = 6\<rparr>,
            Some \<lparr>d_complexity = 6, d_name = ''g'', d_loc = 20, d_lloc = 15, d_cc = 6\<rparr>]
      \<and> r_complexity_issues res = Some (int (length (filter flagged (result_issues res))))
      \<and> list_all (\<lambda>i. \<not> flagged i \<or> above_threshold i) (result_issues res))"
proof -
  have run: "radon_analyze radon_units_env example_files 0 =
     (Inr \<lparr>r_total_issues = Some 2, r_errors = None, r_warnings = None, r_infos = None,
           r_complexity_issues = Some 2,
           r_issues = Some
             [complexity_issue ''app.py''
                \<lparr>ri_complexity = Some 6, ri_name = Some ''g'', ri_loc = Some 20,
                 ri_lloc = Some 15, ri_cc = Some 6, ri_start_line = Some 12\<rparr> 6 ''g'' 20 15 6,
              complexity_issue ''lib.py''
                \<lparr>ri_complexity = Some 6, ri_name = Some ''g'', ri_loc = Some 20,
                 ri_lloc = Some 15, ri_cc = Some 6, ri_start_line = Some 12\<rparr> 6 ''g'' 20 15 6],
           r_error = None\<rparr>, 2)"
    by (simp add: radon_analyze_def example_files_def eligible_def analyze_file_def
        radon_units_env_def handle_outcome_def radon_tool_def radon_item_step_def
        complexity_threshold_def)
  from complexity_flagged_above_threshold [of _ _ _ _ _ _ _ _ _ radon_units_env example_files 0]
    run
  show ?thesis
    by (simp add: result_issues_def complexity_issue_def)
qed

end
